theory Spec2Isabelle
  imports Main "HOL-Library.Word"
begin

unbundle bit_operations_syntax

section \<open>Machine types, registers and constants of tcan4550.c\<close>

text \<open>
  The driver computes on \<open>uint32_t\<close> and \<open>unsigned char\<close>; both are words here, so
  that addition, subtraction and shifts wrap as they do in C. A C \<open>int\<close> that is only a
  status code (\<open>ret\<close>) is an \<open>int\<close>; an \<open>int\<close> that takes part in unsigned arithmetic
  (\<open>msgs\<close>, \<open>tx_head\<close>, \<open>tx_tail\<close>) is a 32-bit word read through \<open>sint\<close> where the
  source compares it as signed.
\<close>

type_synonym u8 = "8 word"
type_synonym u32 = "32 word"

definition EINVAL :: int where "EINVAL = 22"
definition ENODEV :: int where "ENODEV = 19"

definition ENXIO :: int where "ENXIO = 6"
definition EOPNOTSUPP :: int where "EOPNOTSUPP = 95"

definition STATUS :: u32 where "STATUS = 0x0C"
definition SPI_MASK :: u32 where "SPI_MASK = 0x10"
definition MODES_OF_OPERATION :: u32 where "MODES_OF_OPERATION = 0x0800"
definition INTERRUPT_FLAGS :: u32 where "INTERRUPT_FLAGS = 0x0820"
definition INTERRUPT_ENABLE :: u32 where "INTERRUPT_ENABLE = 0x0830"
definition TEST :: u32 where "TEST = 0x1010"
definition CCCR :: u32 where "CCCR = 0x1018"
definition NBTP :: u32 where "NBTP = 0x101C"
definition IR :: u32 where "IR = 0x1050"
definition IE :: u32 where "IE = 0x1054"
definition ILE :: u32 where "ILE = 0x105C"
definition RXF0C :: u32 where "RXF0C = 0x10A0"
definition RXF0S :: u32 where "RXF0S = 0x10A4"
definition RXF0A :: u32 where "RXF0A = 0x10A8"
definition TXBC :: u32 where "TXBC = 0x10C0"
definition TXESC :: u32 where "TXESC = 0x10C8"
definition RXESC :: u32 where "RXESC = 0x10BC"
definition TXQFS :: u32 where "TXQFS = 0x10C4"
definition TXBAR :: u32 where "TXBAR = 0x10D0"

definition RF0N :: u32 where "RF0N = push_bit 0 1"
definition TFE :: u32 where "TFE = push_bit 11 1"
definition EP :: u32 where "EP = push_bit 23 1"
definition EW :: u32 where "EW = push_bit 24 1"
definition BO :: u32 where "BO = push_bit 25 1"

definition INIT :: u32 where "INIT = 0x1"
definition CCE :: u32 where "CCE = 0x2"
definition CSR :: u32 where "CSR = 0x10"

definition MODESEL_1 :: u32 where "MODESEL_1 = 0x40"
definition MODESEL_2 :: u32 where "MODESEL_2 = 0x80"

definition RX_SLOT_SIZE :: u32 where "RX_SLOT_SIZE = 16"
definition TX_SLOT_SIZE :: u32 where "TX_SLOT_SIZE = 16"
definition TX_MSG_BOXES :: u32 where "TX_MSG_BOXES = 32"
definition TX_FIFO_START_ADDRESS :: u32 where "TX_FIFO_START_ADDRESS = 0x0"
definition RX_MSG_BOXES :: u32 where "RX_MSG_BOXES = 32"
definition RX_FIFO_START_ADDRESS :: u32 where "RX_FIFO_START_ADDRESS = 0x200"
definition MRAM_BASE :: u32 where "MRAM_BASE = 0x8000"
definition MRAM_SIZE_WORDS :: nat where "MRAM_SIZE_WORDS = 512"

definition MAX_BURST_TX_MESSAGES :: nat where "MAX_BURST_TX_MESSAGES = 8"
definition MAX_BURST_RX_MESSAGES :: nat where "MAX_BURST_RX_MESSAGES = 8"

text \<open>\<open>#define TX_BUFFER_SIZE 16+1\<close>: every use in the source is an array size or the
  right operand of \<open>>=\<close>, where the missing parentheses change nothing.\<close>

definition TX_BUFFER_SIZE :: nat where "TX_BUFFER_SIZE = 16 + 1"

text \<open>Flag and mask bits of \<open>can_id\<close> (linux/can.h) and the bus-off class of an error frame
  (linux/can/error.h).\<close>

definition CAN_EFF_FLAG :: u32 where "CAN_EFF_FLAG = 0x80000000"
definition CAN_RTR_FLAG :: u32 where "CAN_RTR_FLAG = 0x40000000"
definition CAN_ERR_FLAG :: u32 where "CAN_ERR_FLAG = 0x20000000"
definition CAN_SFF_MASK :: u32 where "CAN_SFF_MASK = 0x000007FF"
definition CAN_EFF_MASK :: u32 where "CAN_EFF_MASK = 0x1FFFFFFF"
definition CAN_ERR_BUSOFF :: u32 where "CAN_ERR_BUSOFF = 0x00000040"
definition CAN_ERR_DLC :: u8 where "CAN_ERR_DLC = 8"

text \<open>Control-mode bits (linux/can/netlink.h).\<close>

definition CAN_CTRLMODE_LOOPBACK :: u32 where "CAN_CTRLMODE_LOOPBACK = 0x01"
definition CAN_CTRLMODE_LISTENONLY :: u32 where "CAN_CTRLMODE_LISTENONLY = 0x02"
definition CAN_CTRLMODE_ONE_SHOT :: u32 where "CAN_CTRLMODE_ONE_SHOT = 0x08"

section \<open>Data\<close>

text \<open>\<open>struct can_frame\<close>: the identifier word with its flag bits, the length and the
  data bytes (eight are declared; arrays are modelled as explained below). A socket buffer
  is used by the driver only as the frame it carries.\<close>

record can_frame =
  can_id :: u32
  len :: u8
  data :: "nat \<Rightarrow> u8"

type_synonym sk_buff = can_frame

datatype can_state =
  CAN_STATE_ERROR_ACTIVE | CAN_STATE_ERROR_WARNING | CAN_STATE_ERROR_PASSIVE
| CAN_STATE_BUS_OFF | CAN_STATE_STOPPED | CAN_STATE_SLEEPING

datatype can_mode = CAN_MODE_STOP | CAN_MODE_START | CAN_MODE_SLEEP

datatype netdev_tx = NETDEV_TX_OK | NETDEV_TX_BUSY

datatype irqreturn = IRQ_NONE | IRQ_HANDLED

record spi_device =
  irq :: int

text \<open>\<open>struct can_bittiming_const\<close> and \<open>struct can_bittiming\<close> (linux/can/netlink.h), with the
  fields the driver sets or reads.\<close>

record can_bittiming_const =
  tseg1_min :: u32
  tseg1_max :: u32
  tseg2_min :: u32
  tseg2_max :: u32
  sjw_max :: u32
  brp_min :: u32
  brp_max :: u32
  brp_inc :: u32

record can_bittiming =
  prop_seg :: u32
  phase_seg1 :: u32
  phase_seg2 :: u32
  sjw :: u32
  brp :: u32

text \<open>
  An array of the private struct is a function from index to element, with the declared
  size kept beside it. The six transfer arrays are declared one after the other and have
  no padding between them (two arrays of 32 words, then four arrays of 132 bytes), so an
  index past the end of one of them names a location of the arrays that follow:
  from the start of \<open>rxBuffer\<close>, \<open>txBuffer\<close> begins at byte 128, \<open>rx_txBuf\<close> at 256,
  \<open>rx_rxBuf\<close> at 388, \<open>tx_txBuf\<close> at 520, \<open>tx_rxBuf\<close> at 652, and the struct ends at
  784. The decoding loop of \<open>spi_read_msgs\<close>, which does index past its arrays, is modelled
  with these overlaps (\<open>rx_rxBuf_at\<close>, \<open>data_put\<close> below); a word stored over a byte array
  is stored least significant byte first, as on the little-endian boards the source names.
  All other accesses of the driver stay within the declared sizes for the states the
  theorems are about.
\<close>

definition rxBuffer_size :: nat where "rxBuffer_size = MAX_BURST_RX_MESSAGES * 4"
definition rx_rxBuf_size :: nat where "rx_rxBuf_size = 4 + MAX_BURST_RX_MESSAGES * 16"

record tcan4550_priv =
  can_state :: can_state
  ctrlmode :: u32
  bittiming :: can_bittiming
  stats_bus_off :: u32
  stats_error_warning :: u32
  stats_error_passive :: u32
  spi :: "spi_device option"
  tx_skb_buf :: "nat \<Rightarrow> sk_buff"
  tx_head :: u32
  tx_tail :: u32
  rxBuffer :: "nat \<Rightarrow> u32"
  txBuffer :: "nat \<Rightarrow> u32"
  rx_txBuf :: "nat \<Rightarrow> u8"
  rx_rxBuf :: "nat \<Rightarrow> u8"
  tx_txBuf :: "nat \<Rightarrow> u8"
  tx_rxBuf :: "nat \<Rightarrow> u8"

record net_device_stats =
  rx_packets :: nat
  rx_bytes :: nat
  rx_dropped :: nat
  tx_packets :: nat
  tx_bytes :: nat

text \<open>A memory access of the burst-read decoding loop, kept so that the indices it uses
  can be stated: a byte read of \<open>rx_rxBuf\<close> or a word write to the caller's array.\<close>

datatype access = Rd_rx_rxBuf nat | Wr_data nat

text \<open>
  Everything outside the driver: the SPI controller (\<open>spi_sync\<close>), the socket-buffer
  allocator and the network stack.
  \<^item> \<open>sync_ret n\<close> is what the \<open>n\<close>-th call of \<open>spi_sync\<close> returns and \<open>sync_rx n i\<close> the
    byte the receive buffer holds at \<open>i\<close> after it (on a failed exchange: whatever the
    buffer holds then); \<open>xfers\<close> lists the bytes handed to each call, oldest first.
  \<^item> \<open>stack\<close> is the content of uninitialised automatic arrays, \<open>beyond\<close> the memory
    that follows the private struct.
  \<^item> \<open>skb_alloc n\<close> tells whether the \<open>n\<close>-th buffer allocation succeeds.
  \<^item> \<open>dropped_invalid\<close> is \<open>can_dropped_invalid_skb\<close>.
  \<^item> \<open>delivered\<close> lists the frames passed to \<open>netif_rx\<close>, \<open>echoed\<close> those looped back
    through the echo slot, \<open>queue_stopped\<close> is the transmit queue's stop flag,
    \<open>carrier_off\<close> what \<open>can_bus_off\<close> sets, \<open>work_queued\<close> counts \<open>queue_work\<close>.
\<close>

record kernel =
  sync_ret :: "nat \<Rightarrow> int"
  sync_rx :: "nat \<Rightarrow> nat \<Rightarrow> u8"
  xfers :: "u8 list list"
  stack :: "nat \<Rightarrow> u8"
  beyond :: "nat \<Rightarrow> u8"
  trace :: "access list"
  skb_alloc :: "nat \<Rightarrow> bool"
  allocs :: nat
  dropped_invalid :: "sk_buff \<Rightarrow> bool"
  delivered :: "can_frame list"
  echoed :: "can_frame list"
  queue_stopped :: bool
  carrier_off :: bool
  work_queued :: nat

record net_device =
  priv :: tcan4550_priv
  stats :: net_device_stats

section \<open>SPI helper functions\<close>

definition spi_sync ::
  "nat \<Rightarrow> (nat \<Rightarrow> u8) \<Rightarrow> (nat \<Rightarrow> u8) \<Rightarrow> kernel \<Rightarrow> int \<times> (nat \<Rightarrow> u8) \<times> kernel" where
  "spi_sync n rxBuf txBuf k =
     (let t = length (xfers k) in
      (sync_ret k t,
       (\<lambda>i. if i < n then sync_rx k t i else rxBuf i),
       k\<lparr>xfers := xfers k @ [map txBuf [0..<n]]\<rparr>))"

text \<open>\<open>spi_transfer\<close>: a null device gives \<open>-EINVAL\<close> with nothing exchanged; the two
  buffers are arrays at every call site and are never null. The mutex orders concurrent
  callers and has no effect on one caller.\<close>

definition spi_transfer ::
  "spi_device option \<Rightarrow> u32 \<Rightarrow> (nat \<Rightarrow> u8) \<Rightarrow> (nat \<Rightarrow> u8) \<Rightarrow> kernel
     \<Rightarrow> int \<times> (nat \<Rightarrow> u8) \<times> kernel" where
  "spi_transfer sp lenBytes rxBuf txBuf k =
     (case sp of
        None \<Rightarrow> (- EINVAL, rxBuf, k)
      | Some d \<Rightarrow> spi_sync (unat lenBytes) rxBuf txBuf k)"

definition spi_read32 :: "spi_device option \<Rightarrow> u32 \<Rightarrow> kernel \<Rightarrow> u32 \<times> kernel" where
  "spi_read32 sp address k =
     (let txBuf = (stack k)(0 := 0x41, 1 := ucast (drop_bit 8 address),
                            2 := ucast (address AND 0xFF), 3 := 1);
          rxBuf = (\<lambda>i. stack k (8 + i));
          (ret, rxBuf', k') = spi_transfer sp 8 rxBuf txBuf k
      in (push_bit 24 (ucast (rxBuf' 4)) + push_bit 16 (ucast (rxBuf' 5))
            + push_bit 8 (ucast (rxBuf' 6)) + ucast (rxBuf' 7), k'))"

text \<open>Byte \<open>j\<close> counted from the start of \<open>rx_rxBuf\<close>, and the store of a word at index \<open>w\<close>
  counted from the start of \<open>data\<close>. The caller's array \<open>data\<close> has 32 words; the driver's
  only call passes \<open>priv->rxBuffer\<close>, so the words from the 32nd on are those that follow
  \<open>rxBuffer\<close> in the struct.\<close>

definition store32 :: "(nat \<Rightarrow> u8) \<Rightarrow> nat \<Rightarrow> u32 \<Rightarrow> (nat \<Rightarrow> u8)" where
  "store32 buf off v =
     buf(off := ucast v, off + 1 := ucast (drop_bit 8 v),
         off + 2 := ucast (drop_bit 16 v), off + 3 := ucast (drop_bit 24 v))"

definition rx_rxBuf_at :: "tcan4550_priv \<Rightarrow> kernel \<Rightarrow> nat \<Rightarrow> u8" where
  "rx_rxBuf_at p k j =
     (if j < 132 then rx_rxBuf p j
      else if j < 264 then tx_txBuf p (j - 132)
      else if j < 396 then tx_rxBuf p (j - 264)
      else beyond k (j - 396))"

definition data_put ::
  "nat \<Rightarrow> u32 \<Rightarrow> (nat \<Rightarrow> u32) \<times> tcan4550_priv \<times> kernel
     \<Rightarrow> (nat \<Rightarrow> u32) \<times> tcan4550_priv \<times> kernel" where
  "data_put w v = (\<lambda>(dat, p, k).
     if w < 32 then (dat(w := v), p, k)
     else if w < 64 then (dat, p\<lparr>txBuffer := (txBuffer p)(w - 32 := v)\<rparr>, k)
     else if w < 97 then (dat, p\<lparr>rx_txBuf := store32 (rx_txBuf p) (4 * (w - 64)) v\<rparr>, k)
     else if w < 130 then (dat, p\<lparr>rx_rxBuf := store32 (rx_rxBuf p) (4 * (w - 97)) v\<rparr>, k)
     else if w < 163 then (dat, p\<lparr>tx_txBuf := store32 (tx_txBuf p) (4 * (w - 130)) v\<rparr>, k)
     else if w < 196 then (dat, p\<lparr>tx_rxBuf := store32 (tx_rxBuf p) (4 * (w - 163)) v\<rparr>, k)
     else (dat, p, k\<lparr>beyond := store32 (beyond k) (4 * (w - 196)) v\<rparr>))"

text \<open>One assignment of the decoding loop of \<open>spi_read_msgs\<close>: the word at index \<open>w\<close> of
  \<open>data\<close> from the bytes at \<open>a\<close>, \<open>b\<close>, \<open>c\<close>, \<open>d\<close> of \<open>rx_rxBuf\<close>, \<open>d\<close> the most significant.
  One pass of the loop, for loop counter \<open>i\<close>, makes four of them in order.\<close>

definition rx_word :: "tcan4550_priv \<Rightarrow> kernel \<Rightarrow> u32 \<Rightarrow> u32 \<Rightarrow> u32 \<Rightarrow> u32 \<Rightarrow> u32" where
  "rx_word p k a b c d =
     ucast (rx_rxBuf_at p k (unat a)) + push_bit 8 (ucast (rx_rxBuf_at p k (unat b)))
       + push_bit 16 (ucast (rx_rxBuf_at p k (unat c)))
       + push_bit 24 (ucast (rx_rxBuf_at p k (unat d)))"

definition rx_word_accesses :: "u32 \<Rightarrow> u32 \<Rightarrow> u32 \<Rightarrow> u32 \<Rightarrow> u32 \<Rightarrow> access list" where
  "rx_word_accesses w a b c d =
     [Rd_rx_rxBuf (unat a), Rd_rx_rxBuf (unat b), Rd_rx_rxBuf (unat c), Rd_rx_rxBuf (unat d),
      Wr_data (unat w)]"

definition decode_word ::
  "u32 \<Rightarrow> u32 \<Rightarrow> u32 \<Rightarrow> u32 \<Rightarrow> u32 \<Rightarrow> (nat \<Rightarrow> u32) \<times> tcan4550_priv \<times> kernel
     \<Rightarrow> (nat \<Rightarrow> u32) \<times> tcan4550_priv \<times> kernel" where
  "decode_word w a b c d = (\<lambda>(dat, p, k).
     (case data_put (unat w) (rx_word p k a b c d) (dat, p, k) of
        (dat', p', k') \<Rightarrow> (dat', p', k'\<lparr>trace := trace k' @ rx_word_accesses w a b c d\<rparr>)))"

definition read_msgs_body ::
  "nat \<Rightarrow> (nat \<Rightarrow> u32) \<times> tcan4550_priv \<times> kernel \<Rightarrow> (nat \<Rightarrow> u32) \<times> tcan4550_priv \<times> kernel" where
  "read_msgs_body n s =
     (let i = (of_nat n :: u32);
          s0 = decode_word (0 + i * 4) (7 + i * 16) (6 + i * 16) (5 + i * 16) (4 + i * 16) s;
          s1 = decode_word (1 + i * 4) (11 + i * 16) (10 + i * 16) (9 + i * 16) (8 + i * 16) s0;
          s2 = decode_word (2 + i * 4) (15 + i * 16) (14 + i * 16) (13 + i * 16) (12 + i * 16) s1
      in decode_word (3 + i * 4) (19 + i * 16) (18 + i * 16) (17 + i * 16) (16 + i * 16) s2)"

text \<open>An access of the loop lies within the six transfer arrays when its byte index from
  \<open>rx_rxBuf\<close> is below 396, or its word index from \<open>data\<close> below 196.\<close>

fun within_buffers :: "access \<Rightarrow> bool" where
  "within_buffers (Rd_rx_rxBuf j) = (j < 396)"
| "within_buffers (Wr_data w) = (w < 196)"

text \<open>\<open>spi_read_msgs\<close>. The loop \<open>for (i = 0; i < (msgs*4); i++)\<close> compares the unsigned
  counter with \<open>msgs*4\<close> converted to unsigned, so it runs \<open>unat (msgs * 4)\<close> times.\<close>

definition spi_read_msgs ::
  "tcan4550_priv \<Rightarrow> u32 \<Rightarrow> u32 \<Rightarrow> (nat \<Rightarrow> u32) \<Rightarrow> kernel
     \<Rightarrow> int \<times> (nat \<Rightarrow> u32) \<times> tcan4550_priv \<times> kernel" where
  "spi_read_msgs p address msgs dat k =
     (if int MAX_BURST_RX_MESSAGES < sint msgs then (- EINVAL, dat, p, k)
      else
        (let txb = (rx_txBuf p)(0 := 0x41, 1 := ucast (drop_bit 8 address),
                                2 := ucast (address AND 0xFF), 3 := ucast (msgs * 4));
             (ret, rxb, k1) = spi_transfer (spi p) (4 + msgs * 16) (rx_rxBuf p) txb k;
             (dat', p', k2) = fold read_msgs_body [0..<unat (msgs * 4)]
                                (dat, p\<lparr>rx_txBuf := txb, rx_rxBuf := rxb\<rparr>, k1)
         in (ret, dat', p', k2)))"

definition spi_write32 :: "spi_device option \<Rightarrow> u32 \<Rightarrow> u32 \<Rightarrow> kernel \<Rightarrow> int \<times> kernel" where
  "spi_write32 sp address dat k =
     (let txBuf = (stack k)(0 := 0x61, 1 := ucast (drop_bit 8 address),
                            2 := ucast (address AND 0xFF), 3 := 1,
                            4 := ucast (drop_bit 24 dat AND 0xFF),
                            5 := ucast (drop_bit 16 dat AND 0xFF),
                            6 := ucast (drop_bit 8 dat AND 0xFF),
                            7 := ucast (dat AND 0xFF));
          rxBuf = (\<lambda>i. stack k (8 + i));
          (ret, rxBuf', k') = spi_transfer sp 8 rxBuf txBuf k
      in (ret, k'))"

definition write_msgs_body :: "(nat \<Rightarrow> u32) \<Rightarrow> nat \<Rightarrow> (nat \<Rightarrow> u8) \<Rightarrow> (nat \<Rightarrow> u8)" where
  "write_msgs_body dat n txb =
     (let i = (of_nat n :: u32) in
      txb(unat (4 + i * 4) := ucast (drop_bit 24 (dat n) AND 0xFF),
          unat (5 + i * 4) := ucast (drop_bit 16 (dat n) AND 0xFF),
          unat (6 + i * 4) := ucast (drop_bit 8 (dat n) AND 0xFF),
          unat (7 + i * 4) := ucast (dat n AND 0xFF)))"

definition spi_write_msgs ::
  "tcan4550_priv \<Rightarrow> u32 \<Rightarrow> u32 \<Rightarrow> (nat \<Rightarrow> u32) \<Rightarrow> kernel \<Rightarrow> int \<times> tcan4550_priv \<times> kernel" where
  "spi_write_msgs p address msgs dat k =
     (if int MAX_BURST_TX_MESSAGES < sint msgs then (- EINVAL, p, k)
      else
        (let hdr = (tx_txBuf p)(0 := 0x61, 1 := ucast (drop_bit 8 address),
                                2 := ucast (address AND 0xFF), 3 := ucast (msgs * 4));
             txb = fold (write_msgs_body dat) [0..<unat (msgs * 4)] hdr;
             (ret, rxb, k1) = spi_transfer (spi p) (4 + msgs * 16) (tx_rxBuf p) txb k
         in (ret, p\<lparr>tx_txBuf := txb, tx_rxBuf := rxb\<rparr>, k1)))"

section \<open>Kernel services used by the driver\<close>

text \<open>What the driver relies on from the network stack and the CAN device framework, each
  as its effect on the environment. \<open>alloc_can_skb\<close> gives a zeroed frame,
  \<open>alloc_can_err_skb\<close> a zeroed frame marked as an error frame of length \<open>CAN_ERR_DLC\<close>;
  either may fail. \<open>can_echo\<close> is \<open>can_put_echo_skb\<close> followed at once by
  \<open>can_get_echo_skb\<close> on echo slot 0, which loops the frame back.\<close>

definition alloc_can_skb :: "kernel \<Rightarrow> can_frame option \<times> kernel" where
  "alloc_can_skb k =
     ((if skb_alloc k (allocs k) then Some \<lparr>can_id = 0, len = 0, data = (\<lambda>i. 0)\<rparr> else None),
      k\<lparr>allocs := allocs k + 1\<rparr>)"

definition alloc_can_err_skb :: "kernel \<Rightarrow> can_frame option \<times> kernel" where
  "alloc_can_err_skb k =
     ((if skb_alloc k (allocs k)
       then Some \<lparr>can_id = CAN_ERR_FLAG, len = CAN_ERR_DLC, data = (\<lambda>i. 0)\<rparr> else None),
      k\<lparr>allocs := allocs k + 1\<rparr>)"

definition netif_rx :: "can_frame \<Rightarrow> kernel \<Rightarrow> kernel" where
  "netif_rx cf k = k\<lparr>delivered := delivered k @ [cf]\<rparr>"

definition can_echo :: "sk_buff \<Rightarrow> kernel \<Rightarrow> kernel" where
  "can_echo skb k = k\<lparr>echoed := echoed k @ [skb]\<rparr>"

definition netif_stop_queue :: "kernel \<Rightarrow> kernel" where
  "netif_stop_queue k = k\<lparr>queue_stopped := True\<rparr>"

definition netif_wake_queue :: "kernel \<Rightarrow> kernel" where
  "netif_wake_queue k = k\<lparr>queue_stopped := False\<rparr>"

definition netif_start_queue :: "kernel \<Rightarrow> kernel" where
  "netif_start_queue k = k\<lparr>queue_stopped := False\<rparr>"

definition queue_work :: "kernel \<Rightarrow> kernel" where
  "queue_work k = k\<lparr>work_queued := work_queued k + 1\<rparr>"

definition can_bus_off :: "kernel \<Rightarrow> kernel" where
  "can_bus_off k = k\<lparr>carrier_off := True\<rparr>"

section \<open>Chip set-up\<close>

text \<open>The register sequences of \<open>tcan4550_init\<close>. None of them looks at what the SPI
  helpers return, so each is given by the environment it leaves.\<close>

definition tcan4550_set_standby_mode :: "spi_device option \<Rightarrow> kernel \<Rightarrow> kernel" where
  "tcan4550_set_standby_mode sp k =
     (let (val, k1) = spi_read32 sp MODES_OF_OPERATION k;
          val1 = val OR MODESEL_1;
          val2 = val1 AND NOT MODESEL_2
      in snd (spi_write32 sp MODES_OF_OPERATION val2 k1))"

definition tcan4550_set_normal_mode :: "spi_device option \<Rightarrow> kernel \<Rightarrow> kernel" where
  "tcan4550_set_normal_mode sp k =
     (let (val, k1) = spi_read32 sp MODES_OF_OPERATION k;
          val1 = val OR MODESEL_2;
          val2 = val1 AND NOT MODESEL_1
      in snd (spi_write32 sp MODES_OF_OPERATION val2 k1))"

definition tcan4550_setBitRate :: "spi_device option \<Rightarrow> u32 \<Rightarrow> kernel \<Rightarrow> kernel" where
  "tcan4550_setBitRate sp reg k = snd (spi_write32 sp NBTP reg k)"

definition tcan4550_configure_mram :: "spi_device option \<Rightarrow> kernel \<Rightarrow> kernel" where
  "tcan4550_configure_mram sp k =
     (let k1 = fold (\<lambda>n kk. snd (spi_write32 sp (MRAM_BASE + of_nat n * 4) 0 kk))
                 [0..<MRAM_SIZE_WORDS] k;
          k2 = snd (spi_write32 sp TXBC (TX_FIFO_START_ADDRESS + push_bit 24 TX_MSG_BOXES) k1);
          k3 = snd (spi_write32 sp RXF0C (RX_FIFO_START_ADDRESS + push_bit 16 RX_MSG_BOXES) k2);
          k4 = snd (spi_write32 sp TXESC 0 k3)
      in snd (spi_write32 sp RXESC 0 k4))"

definition tcan4550_unlock :: "spi_device option \<Rightarrow> kernel \<Rightarrow> kernel" where
  "tcan4550_unlock sp k =
     (let (val, k1) = spi_read32 sp CCCR k;
          val1 = val OR (CCE + INIT);
          val2 = val1 AND NOT CSR
      in snd (spi_write32 sp CCCR val2 k1))"

definition tcan4550_setupInterrupts :: "spi_device option \<Rightarrow> kernel \<Rightarrow> kernel" where
  "tcan4550_setupInterrupts sp k =
     (let k1 = snd (spi_write32 sp IE (RF0N + TFE + BO + EW + EP) k);
          k2 = snd (spi_write32 sp ILE 0x1 k1);
          k3 = snd (spi_write32 sp SPI_MASK 0xFFFFFFFF k2);
          k4 = snd (spi_write32 sp STATUS 0xFFFFFFFF k3);
          k5 = snd (spi_write32 sp INTERRUPT_FLAGS 0xFFFFFFFF k4)
      in snd (spi_write32 sp INTERRUPT_ENABLE 0 k5))"

definition tcan4550_configureControlModes :: "net_device \<Rightarrow> kernel \<Rightarrow> kernel" where
  "tcan4550_configureControlModes dev k =
     (let p = priv dev;
          (cccr, k1) = spi_read32 (spi p) CCCR k;
          (test, k2) = spi_read32 (spi p) TEST k1;
          cccr1 = (if ctrlmode p AND CAN_CTRLMODE_LOOPBACK \<noteq> 0
                   then cccr OR (push_bit 7 1 OR push_bit 5 1) else cccr);
          test1 = (if ctrlmode p AND CAN_CTRLMODE_LOOPBACK \<noteq> 0
                   then test OR push_bit 4 1 else test);
          cccr2 = (if ctrlmode p AND CAN_CTRLMODE_LISTENONLY \<noteq> 0
                   then cccr1 OR push_bit 5 1 else cccr1);
          cccr3 = (if ctrlmode p AND CAN_CTRLMODE_ONE_SHOT \<noteq> 0
                   then cccr2 OR push_bit 6 1 else cccr2);
          cccr4 = cccr3 AND NOT (push_bit 4 1);
          k3 = snd (spi_write32 (spi p) CCCR cccr4 k2)
      in snd (spi_write32 (spi p) TEST test1 k3))"

definition tcan4550_init :: "net_device \<Rightarrow> u32 \<Rightarrow> kernel \<Rightarrow> bool \<times> kernel" where
  "tcan4550_init dev reg k =
     (let sp = spi (priv dev);
          k1 = tcan4550_set_standby_mode sp k;
          k2 = tcan4550_unlock sp k1;
          k3 = tcan4550_setBitRate sp reg k2;
          k4 = tcan4550_configure_mram sp k3;
          k5 = tcan4550_configureControlModes dev k4;
          k6 = tcan4550_setupInterrupts sp k5
      in (True, tcan4550_set_normal_mode sp k6))"

section \<open>Message codec\<close>

text \<open>\<open>tcan4550_composeMessage\<close> writes the four words of one message at \<open>buffer\<close>, which
  the caller passes as \<open>&priv->txBuffer[msgs*4]\<close>: here the array and the offset. The
  byte sums are computed in \<open>int\<close> and stored to \<open>uint32_t\<close>; the stored bits are those of
  the unsigned sum.\<close>

definition tcan4550_composeMessage :: "sk_buff \<Rightarrow> nat \<Rightarrow> (nat \<Rightarrow> u32) \<Rightarrow> (nat \<Rightarrow> u32)" where
  "tcan4550_composeMessage skb off buffer =
     (let extended = (can_id skb AND CAN_EFF_FLAG \<noteq> 0);
          rtr = (can_id skb AND CAN_RTR_FLAG \<noteq> 0);
          len0 = (ucast (len skb) :: u32);
          ln = (if 8 < len0 then 8 else len0);
          b0 = (if extended then can_id skb AND CAN_EFF_MASK
                else push_bit 18 (can_id skb AND CAN_SFF_MASK));
          b0' = b0 + (push_bit 29 (of_bool rtr) + push_bit 30 (of_bool extended))
      in buffer(off + 0 := b0',
                off + 1 := push_bit 16 ln,
                off + 2 := ucast (data skb 0) + push_bit 8 (ucast (data skb 1))
                             + push_bit 16 (ucast (data skb 2)) + push_bit 24 (ucast (data skb 3)),
                off + 3 := ucast (data skb 4) + push_bit 8 (ucast (data skb 5))
                             + push_bit 16 (ucast (data skb 6)) + push_bit 24 (ucast (data skb 7))))"

text \<open>The decoding in the receive loop of \<open>tcan4550_recMsgs\<close> (the body of \<open>if (skb)\<close> up
  to \<open>netif_rx\<close>): \<open>dat\<close> is \<open>&priv->rxBuffer[0+(i*4)]\<close>, \<open>cf\<close> the freshly allocated
  frame.\<close>

definition recMsgs_decode :: "(nat \<Rightarrow> u32) \<Rightarrow> can_frame \<Rightarrow> can_frame" where
  "recMsgs_decode dat cf =
     cf\<lparr>len := ucast (drop_bit 16 (dat 1) AND 0x7F),
        can_id := (if dat 0 AND push_bit 30 1 \<noteq> 0
                   then (dat 0 AND CAN_EFF_MASK) OR CAN_EFF_FLAG
                   else drop_bit 18 (dat 0) AND CAN_SFF_MASK),
        data := (data cf)(0 := ucast (dat 2 AND 0xFF),
                          1 := ucast (drop_bit 8 (dat 2) AND 0xFF),
                          2 := ucast (drop_bit 16 (dat 2) AND 0xFF),
                          3 := ucast (drop_bit 24 (dat 2) AND 0xFF),
                          4 := ucast (dat 3 AND 0xFF),
                          5 := ucast (drop_bit 8 (dat 3) AND 0xFF),
                          6 := ucast (drop_bit 16 (dat 3) AND 0xFF),
                          7 := ucast (drop_bit 24 (dat 3) AND 0xFF))\<rparr>"

section \<open>Hardware FIFO coordination\<close>

text \<open>The burst size of the transmit worker (\<open>msgsToTransmit\<close>) from the two fields of
  \<open>TXQFS\<close>, and that of the receive path (\<open>msgsToGet\<close>, once it is known to be non-zero)
  from the two fields of \<open>RXF0S\<close>.\<close>

definition tx_msgsToTransmit :: "u32 \<Rightarrow> u32 \<Rightarrow> u32" where
  "tx_msgsToTransmit freeBuffers writeIndex =
     (let m = (if of_nat MAX_BURST_TX_MESSAGES < freeBuffers
               then of_nat MAX_BURST_TX_MESSAGES else freeBuffers)
      in if TX_MSG_BOXES < writeIndex + m then TX_MSG_BOXES - writeIndex else m)"

definition rx_msgsToGet :: "u32 \<Rightarrow> u32 \<Rightarrow> u32" where
  "rx_msgsToGet fillLevel getIndex =
     (let m = (if RX_MSG_BOXES - getIndex < fillLevel then RX_MSG_BOXES - getIndex
               else fillLevel)
      in if of_nat MAX_BURST_RX_MESSAGES < m then of_nat MAX_BURST_RX_MESSAGES else m)"

text \<open>The loop of \<open>tcan4550_tx_work_handler\<close> that moves staged frames into \<open>txBuffer\<close>.
  \<open>tx_tail\<close> is an \<open>int\<close>: its comparison with \<open>TX_BUFFER_SIZE\<close> is signed.\<close>

function tx_loop ::
  "u32 \<Rightarrow> u32 \<Rightarrow> u32 \<Rightarrow> u32 \<Rightarrow> net_device \<Rightarrow> kernel \<Rightarrow> u32 \<times> u32 \<times> net_device \<times> kernel" where
  "tx_loop msgsToTransmit msgs writeIndex requestMask dev k =
     (if tx_head (priv dev) \<noteq> tx_tail (priv dev) \<and> msgs < msgsToTransmit then
        (let p = priv dev;
             skb = tx_skb_buf p (unat (tx_tail p));
             p1 = p\<lparr>txBuffer := tcan4550_composeMessage skb (unat (msgs * 4)) (txBuffer p)\<rparr>;
             k1 = can_echo skb k;
             st1 = (stats dev)\<lparr>rx_packets := rx_packets (stats dev) + 1,
                                rx_bytes := rx_bytes (stats dev) + unat (len skb)\<rparr>;
             requestMask' = requestMask + push_bit (unat writeIndex) 1;
             tail1 = tx_tail p1 + 1;
             p2 = p1\<lparr>tx_tail := (if int TX_BUFFER_SIZE \<le> sint tail1 then 0 else tail1)\<rparr>;
             st2 = st1\<lparr>tx_packets := tx_packets st1 + 1,
                       tx_bytes := tx_bytes st1 + unat (len skb)\<rparr>
         in tx_loop msgsToTransmit (msgs + 1) (writeIndex + 1) requestMask'
              (dev\<lparr>priv := p2, stats := st2\<rparr>) k1)
      else (msgs, requestMask, dev, k))"
  by pat_completeness auto
termination
proof (relation "measure (\<lambda>(n, msgs, w, r, dev, k). unat n - unat msgs)")
  show "wf (measure (\<lambda>(n, msgs, w, r, dev, k). unat n - unat msgs))"
    by simp
next
  fix msgsToTransmit msgs writeIndex requestMask :: u32
  fix dev :: net_device and k :: kernel
  fix p skb p1 k1 st1 requestMask' tail1 p2 st2
  assume "tx_head (priv dev) \<noteq> tx_tail (priv dev) \<and> msgs < msgsToTransmit"
  then have "msgs < msgsToTransmit" by simp
  then have "unat msgsToTransmit - unat (msgs + 1) < unat msgsToTransmit - unat msgs"
    by unat_arith
  then show "((msgsToTransmit, msgs + 1, writeIndex + 1, requestMask',
                dev\<lparr>priv := p2, stats := st2\<rparr>, k1),
              (msgsToTransmit, msgs, writeIndex, requestMask, dev, k))
             \<in> measure (\<lambda>(n, msgs, w, r, dev, k). unat n - unat msgs)"
    by simp
qed

declare tx_loop.simps [simp del]

definition tcan4550_tx_work_handler :: "net_device \<Rightarrow> kernel \<Rightarrow> net_device \<times> kernel" where
  "tcan4550_tx_work_handler dev k =
     (let (txqfs, k1) = spi_read32 (spi (priv dev)) TXQFS k;
          freeBuffers = txqfs AND 0x3F;
          writeIndex = drop_bit 16 txqfs AND 0x1F;
          baseAddress = MRAM_BASE + TX_FIFO_START_ADDRESS + writeIndex * TX_SLOT_SIZE;
          msgsToTransmit = tx_msgsToTransmit freeBuffers writeIndex;
          (msgs, requestMask, dev1, k2) = tx_loop msgsToTransmit 0 writeIndex 0 dev k1
      in if 0 < msgs then
           (let (ret, p1, k3) = spi_write_msgs (priv dev1) baseAddress msgs (txBuffer (priv dev1)) k2;
                (ret', k4) = spi_write32 (spi p1) TXBAR requestMask k3
            in (dev1\<lparr>priv := p1\<rparr>, k4))
         else (dev1, k2))"

text \<open>One pass of the delivery loop of \<open>tcan4550_recMsgs\<close> for loop counter \<open>i\<close>.\<close>

definition recMsgs_body :: "nat \<Rightarrow> net_device \<times> kernel \<Rightarrow> net_device \<times> kernel" where
  "recMsgs_body n = (\<lambda>(dev, k).
     (let i = (of_nat n :: u32);
          (skb, k1) = alloc_can_skb k
      in case skb of
           Some cf \<Rightarrow>
             (let cf' = recMsgs_decode (\<lambda>j. rxBuffer (priv dev) (unat (0 + i * 4) + j)) cf
              in (dev\<lparr>stats := (stats dev)\<lparr>rx_packets := rx_packets (stats dev) + 1,
                                            rx_bytes := rx_bytes (stats dev) + unat (len cf')\<rparr>\<rparr>,
                  netif_rx cf' k1))
         | None \<Rightarrow>
             (dev\<lparr>stats := (stats dev)\<lparr>rx_dropped := rx_dropped (stats dev) + 1\<rparr>\<rparr>, k1)))"

definition tcan4550_recMsgs :: "net_device \<Rightarrow> kernel \<Rightarrow> bool \<times> net_device \<times> kernel" where
  "tcan4550_recMsgs dev k =
     (let (rxf0s, k1) = spi_read32 (spi (priv dev)) RXF0S k;
          fillLevel = rxf0s AND 0x7F;
          getIndex = drop_bit 8 rxf0s AND 0x3F;
          baseAddress = MRAM_BASE + RX_FIFO_START_ADDRESS + getIndex * RX_SLOT_SIZE
      in if fillLevel = 0 then (False, dev, k1)
         else
           (let msgsToGet = rx_msgsToGet fillLevel getIndex;
                (ret, dat, p1, k2) =
                   spi_read_msgs (priv dev) baseAddress msgsToGet (rxBuffer (priv dev)) k1;
                dev1 = dev\<lparr>priv := p1\<lparr>rxBuffer := dat\<rparr>\<rparr>;
                (ret', k3) = spi_write32 (spi (priv dev1)) RXF0A (getIndex + msgsToGet - 1) k2;
                (dev2, k4) = fold recMsgs_body [0..<unat msgsToGet] (dev1, k3)
            in (True, dev2, k4)))"

section \<open>Event dispatcher\<close>

text \<open>The bus-off branch of the interrupt handler.\<close>

definition handle_bus_off :: "net_device \<Rightarrow> kernel \<Rightarrow> net_device \<times> kernel" where
  "handle_bus_off dev k =
     (let k1 = can_bus_off k;
          p1 = (priv dev)\<lparr>stats_bus_off := stats_bus_off (priv dev) + 1,
                          can_state := CAN_STATE_BUS_OFF\<rparr>;
          (ret, k2) = spi_write32 (spi p1) IE 0 k1;
          (skb, k3) = alloc_can_err_skb k2;
          k4 = (case skb of
                  Some cf \<Rightarrow> netif_rx (cf\<lparr>can_id := can_id cf OR CAN_ERR_BUSOFF\<rparr>) k3
                | None \<Rightarrow> k3)
      in (dev\<lparr>priv := p1\<rparr>, netif_stop_queue k4))"

definition tcan4450_handleInterrupts :: "net_device \<Rightarrow> kernel \<Rightarrow> irqreturn \<times> net_device \<times> kernel" where
  "tcan4450_handleInterrupts dev k =
     (let (ir, k1) = spi_read32 (spi (priv dev)) IR k;
          (ret, k2) = spi_write32 (spi (priv dev)) IR ir k1
      in if ir = 0 then (IRQ_NONE, dev, k2)
         else
           (let (dev1, k3) = (if ir AND RF0N \<noteq> 0
                              then (let (r, d, kk) = tcan4550_recMsgs dev k2 in (d, kk))
                              else (dev, k2));
                k4 = (if ir AND TFE \<noteq> 0 then netif_wake_queue k3 else k3);
                (dev2, k5) = (if ir AND BO \<noteq> 0 then handle_bus_off dev1 k4 else (dev1, k4));
                dev3 = (if ir AND EW \<noteq> 0
                        then dev2\<lparr>priv := (priv dev2)\<lparr>
                               stats_error_warning := stats_error_warning (priv dev2) + 1,
                               can_state := CAN_STATE_ERROR_WARNING\<rparr>\<rparr>
                        else dev2);
                dev4 = (if ir AND EP \<noteq> 0
                        then dev3\<lparr>priv := (priv dev3)\<lparr>
                               stats_error_passive := stats_error_passive (priv dev3) + 1,
                               can_state := CAN_STATE_ERROR_PASSIVE\<rparr>\<rparr>
                        else dev3)
            in (IRQ_HANDLED, dev4, k5)))"

section \<open>Software transmit staging queue\<close>

text \<open>\<open>tcan_start_xmit\<close>. \<open>tmpHead\<close> is unsigned: its comparison with \<open>TX_BUFFER_SIZE\<close> is
  unsigned, and \<open>tx_tail\<close> is converted to unsigned for the equality test. A buffer that
  \<open>can_dropped_invalid_skb\<close> rejects is dropped there and reported as sent.\<close>

definition tcan_start_xmit :: "sk_buff \<Rightarrow> net_device \<Rightarrow> kernel \<Rightarrow> netdev_tx \<times> net_device \<times> kernel" where
  "tcan_start_xmit skb dev k =
     (if dropped_invalid k skb then (NETDEV_TX_OK, dev, k)
      else
        (let p = priv dev;
             tmpHead0 = tx_head p + 1;
             tmpHead = (if of_nat TX_BUFFER_SIZE \<le> tmpHead0 then 0 else tmpHead0)
         in if tmpHead = tx_tail p
            then (NETDEV_TX_BUSY, dev, queue_work (netif_stop_queue k))
            else (NETDEV_TX_OK,
                  dev\<lparr>priv := p\<lparr>tx_skb_buf := (tx_skb_buf p)(unat (tx_head p) := skb),
                               tx_head := tmpHead\<rparr>\<rparr>,
                  queue_work k)))"

text \<open>Consecutive submissions, with the result of each.\<close>

fun xmit_all :: "sk_buff list \<Rightarrow> net_device \<Rightarrow> kernel \<Rightarrow> netdev_tx list \<times> net_device \<times> kernel" where
  "xmit_all [] dev k = ([], dev, k)"
| "xmit_all (skb # skbs) dev k =
     (let (r, dev1, k1) = tcan_start_xmit skb dev k;
          (rs, dev2, k2) = xmit_all skbs dev1 k1
      in (r # rs, dev2, k2))"

section \<open>Bit timing\<close>

text \<open>The limits the driver declares to the CAN device framework, and the register word
  that \<open>tcan_open\<close> and \<open>tcan4550_set_mode\<close> compute from the timing parameters. The driver
  does not check the parameters itself.\<close>

definition tcan4550_bittiming_const :: can_bittiming_const where
  "tcan4550_bittiming_const =
     \<lparr>tseg1_min = 1, tseg1_max = 255, tseg2_min = 1, tseg2_max = 127, sjw_max = 127,
      brp_min = 1, brp_max = 511, brp_inc = 1\<rparr>"

definition bitRateReg :: "can_bittiming \<Rightarrow> u32" where
  "bitRateReg bt =
     (phase_seg2 bt - 1) + push_bit 8 (prop_seg bt + phase_seg1 bt - 1)
       + push_bit 16 (brp bt - 1) + push_bit 25 (sjw bt - 1)"

section \<open>Restart\<close>

text \<open>\<open>tcan4550_set_mode\<close>, called by the CAN framework to restart the device after
  bus-off. \<open>tcan4550_init\<close> always answers \<open>true\<close>; the branch for its failure is kept as
  the source has it.\<close>

definition tcan4550_set_mode :: "net_device \<Rightarrow> can_mode \<Rightarrow> kernel \<Rightarrow> int \<times> net_device \<times> kernel" where
  "tcan4550_set_mode dev mode k =
     (case mode of
        CAN_MODE_START \<Rightarrow>
          (let dev1 = dev\<lparr>priv := (priv dev)\<lparr>tx_head := 0, tx_tail := 0,
                                              can_state := CAN_STATE_ERROR_ACTIVE\<rparr>\<rparr>;
               (ok, k1) = tcan4550_init dev1 (bitRateReg (bittiming (priv dev))) k
           in if \<not> ok then (- ENXIO, dev1, k1) else (0, dev1, netif_start_queue k1))
      | _ \<Rightarrow> (- EOPNOTSUPP, dev, k))"

section \<open>Example states\<close>

text \<open>A device as \<open>tcan_open\<close> leaves it (both queue indices 0, state error-active), and an
  environment in which every SPI exchange succeeds and the \<open>n\<close>-th one answers with the
  register word \<open>regs n\<close>, every allocation succeeds and no buffer is invalid.\<close>

definition priv_open :: tcan4550_priv where
  "priv_open =
     \<lparr>can_state = CAN_STATE_ERROR_ACTIVE, ctrlmode = 0,
      bittiming = \<lparr>prop_seg = 34, phase_seg1 = 35, phase_seg2 = 10, sjw = 1, brp = 1\<rparr>,
      stats_bus_off = 0, stats_error_warning = 0,
      stats_error_passive = 0, spi = Some \<lparr>irq = 0\<rparr>,
      tx_skb_buf = (\<lambda>i. \<lparr>can_id = 0, len = 0, data = (\<lambda>j. 0)\<rparr>),
      tx_head = 0, tx_tail = 0, rxBuffer = (\<lambda>i. 0), txBuffer = (\<lambda>i. 0),
      rx_txBuf = (\<lambda>i. 0), rx_rxBuf = (\<lambda>i. 0), tx_txBuf = (\<lambda>i. 0), tx_rxBuf = (\<lambda>i. 0)\<rparr>"

definition dev_open :: net_device where
  "dev_open =
     \<lparr>priv = priv_open,
      stats = \<lparr>rx_packets = 0, rx_bytes = 0, rx_dropped = 0, tx_packets = 0, tx_bytes = 0\<rparr>\<rparr>"

definition answer_byte :: "u32 \<Rightarrow> nat \<Rightarrow> u8" where
  "answer_byte w i =
     (if i = 4 then ucast (drop_bit 24 w) else if i = 5 then ucast (drop_bit 16 w)
      else if i = 6 then ucast (drop_bit 8 w) else if i = 7 then ucast w else 0)"

definition kernel_answering :: "(nat \<Rightarrow> u32) \<Rightarrow> kernel" where
  "kernel_answering regs =
     \<lparr>sync_ret = (\<lambda>n. 0), sync_rx = (\<lambda>n. answer_byte (regs n)), xfers = [], stack = (\<lambda>i. 0),
      beyond = (\<lambda>i. 0), trace = [], skb_alloc = (\<lambda>n. True), allocs = 0, dropped_invalid = (\<lambda>s. False),
      delivered = [], echoed = [], queue_stopped = False, carrier_off = False,
      work_queued = 0\<rparr>"

section \<open>Auxiliary facts\<close>

lemma upt_0_8: "[0..<8] = [0, 1, 2, 3, 4, 5, 6, 7]"
  by (simp add: upt_rec)

lemma upt_0_4: "[0..<4] = [0, 1, 2, 3]"
  by (simp add: upt_rec)

lemma spi_read32_Some:
  "spi_read32 (Some d) a k =
     (push_bit 24 (ucast (sync_rx k (length (xfers k)) 4))
        + push_bit 16 (ucast (sync_rx k (length (xfers k)) 5))
        + push_bit 8 (ucast (sync_rx k (length (xfers k)) 6))
        + ucast (sync_rx k (length (xfers k)) 7),
      k\<lparr>xfers := xfers k @ [[0x41, ucast (drop_bit 8 a), ucast (a AND 0xFF), 1,
                               stack k 4, stack k 5, stack k 6, stack k 7]]\<rparr>)"
  by (simp add: spi_read32_def spi_transfer_def spi_sync_def Let_def upt_0_8)

lemma spi_write32_Some:
  "spi_write32 (Some d) a v k =
     (sync_ret k (length (xfers k)),
      k\<lparr>xfers := xfers k @ [[0x61, ucast (drop_bit 8 a), ucast (a AND 0xFF), 1,
                               ucast (drop_bit 24 v AND 0xFF), ucast (drop_bit 16 v AND 0xFF),
                               ucast (drop_bit 8 v AND 0xFF), ucast (v AND 0xFF)]]\<rparr>)"
  by (simp add: spi_write32_def spi_transfer_def spi_sync_def Let_def upt_0_8)

lemma spi_read32_same:
  assumes "sync_rx k' = sync_rx k" and "xfers k' = xfers k" and "stack k' = stack k"
  shows "fst (spi_read32 sp a k') = fst (spi_read32 sp a k)"
  using assms by (cases sp) (simp_all add: spi_read32_def spi_transfer_def spi_sync_def Let_def)

lemma spi_read32_dropped_invalid:
  "dropped_invalid (snd (spi_read32 sp a k)) = dropped_invalid k"
  by (cases sp) (simp_all add: spi_read32_def spi_transfer_def spi_sync_def Let_def)

lemma spi_write32_dropped_invalid:
  "dropped_invalid (snd (spi_write32 sp a v k)) = dropped_invalid k"
  by (cases sp) (simp_all add: spi_write32_def spi_transfer_def spi_sync_def Let_def)

lemma spi_write_msgs_frame:
  "tx_head (fst (snd (spi_write_msgs p a m dat k))) = tx_head p"
  "tx_tail (fst (snd (spi_write_msgs p a m dat k))) = tx_tail p"
  "dropped_invalid (snd (snd (spi_write_msgs p a m dat k))) = dropped_invalid k"
  by (cases "spi p"; simp add: spi_write_msgs_def spi_transfer_def spi_sync_def Let_def split_beta)+

lemma data_put_frame:
  "xfers (snd (snd (data_put w v s))) = xfers (snd (snd s))"
  "trace (snd (snd (data_put w v s))) = trace (snd (snd s))"
  "spi (fst (snd (data_put w v s))) = spi (fst (snd s))"
  by (cases s; simp add: data_put_def)+

lemma decode_word_frame:
  "xfers (snd (snd (decode_word w a b c d s))) = xfers (snd (snd s))"
  "spi (fst (snd (decode_word w a b c d s))) = spi (fst (snd s))"
  "trace (snd (snd (decode_word w a b c d s)))
     = trace (snd (snd s)) @ rx_word_accesses w a b c d"
  by (cases s; simp add: decode_word_def split_beta data_put_frame)+

lemma read_msgs_body_frame:
  "xfers (snd (snd (read_msgs_body n s))) = xfers (snd (snd s))"
  "spi (fst (snd (read_msgs_body n s))) = spi (fst (snd s))"
  by (simp_all add: read_msgs_body_def Let_def decode_word_frame)

lemma fold_read_msgs_body_frame:
  "xfers (snd (snd (fold read_msgs_body ns s))) = xfers (snd (snd s))"
  "spi (fst (snd (fold read_msgs_body ns s))) = spi (fst (snd s))"
  by (induction ns arbitrary: s) (simp_all add: read_msgs_body_frame)

lemma xfers_fold_recMsgs_body:
  "xfers (snd (fold recMsgs_body ns (dev, k))) = xfers k"
  by (induction ns arbitrary: dev k)
     (simp_all add: recMsgs_body_def Let_def alloc_can_skb_def netif_rx_def
        split: option.split prod.split)

lemma spi_read_msgs_xfers:
  assumes "spi p = Some d" and "sint msgs \<le> 8"
  shows "xfers (snd (snd (snd (spi_read_msgs p a msgs dat k))))
           = xfers k @ [map ((rx_txBuf p)(0 := 0x41, 1 := ucast (drop_bit 8 a),
                                2 := ucast (a AND 0xFF), 3 := ucast (msgs * 4)))
                            [0..<unat (4 + msgs * 16)]]"
    and "spi (fst (snd (snd (spi_read_msgs p a msgs dat k)))) = Some d"
  using assms
  by (simp_all add: spi_read_msgs_def spi_transfer_def spi_sync_def Let_def
        MAX_BURST_RX_MESSAGES_def fold_read_msgs_body_frame case_prod_beta)

section \<open>Transport framing\<close>

text \<open>C7. Writing the value 0x12345678 to register 0x101C hands exactly the eight bytes
  0x61, 0x10, 0x1C, 0x01, 0x12, 0x34, 0x56, 0x78 to the SPI controller: the write opcode,
  the address high and low byte, the word count 1 and the value, most significant byte
  first.\<close>

theorem spi_write32_framing_literal:
  "xfers (snd (spi_write32 (Some d) 0x101C 0x12345678 k))
     = xfers k @ [[0x61, 0x10, 0x1C, 0x01, 0x12, 0x34, 0x56, 0x78]]"
  by (simp add: spi_write32_def spi_transfer_def spi_sync_def Let_def upt_conv_Cons)

text \<open>C8. A burst read and a burst write asked for more than eight messages both return
  \<open>-EINVAL\<close> (-22) and leave the caller's array, the private data with its transfer
  buffers, and the environment (so also the list of SPI exchanges) as they were.\<close>

theorem burst_oversize_rejected:
  "8 < sint msgs \<Longrightarrow>
     spi_read_msgs p a msgs dat k = (- 22, dat, p, k) \<and>
     spi_write_msgs p a msgs dat k = (- 22, p, k)"
  by (simp add: spi_read_msgs_def spi_write_msgs_def EINVAL_def
      MAX_BURST_RX_MESSAGES_def MAX_BURST_TX_MESSAGES_def)

theorem burst_oversize_rejected_witness:
  "8 < sint (9 :: u32) \<and>
   spi_read_msgs priv_open 0x8200 9 (\<lambda>i. 0) (kernel_answering (\<lambda>n. 0))
     = (- 22, (\<lambda>i. 0), priv_open, kernel_answering (\<lambda>n. 0)) \<and>
   spi_write_msgs priv_open 0x8000 9 (\<lambda>i. 0) (kernel_answering (\<lambda>n. 0))
     = (- 22, priv_open, kernel_answering (\<lambda>n. 0))"
proof -
  have h: "8 < sint (9 :: u32)" by simp
  show ?thesis
    using h burst_oversize_rejected [OF h, of priv_open "0x8200" "\<lambda>i. 0" "kernel_answering (\<lambda>n. 0)"]
      burst_oversize_rejected [OF h, of priv_open "0x8000" "\<lambda>i. 0" "kernel_answering (\<lambda>n. 0)"]
    by blast
qed

text \<open>C9 (the code departs from it). \<open>spi_read32\<close> returns a plain 32-bit word whatever
  \<open>spi_transfer\<close> reported: with every exchange failing with \<open>-ENODEV\<close> it returns the same
  word as with every exchange succeeding, assembled from whatever the receive buffer
  holds. The failure is not passed on to the caller; there is one exchange and no retry.\<close>

theorem spi_read32_discards_transfer_status:
  "fst (spi_read32 (Some d) a (k\<lparr>sync_ret := \<lambda>n. - ENODEV\<rparr>))
     = fst (spi_read32 (Some d) a (k\<lparr>sync_ret := \<lambda>n. 0\<rparr>))
   \<and> length (xfers (snd (spi_read32 (Some d) a (k\<lparr>sync_ret := \<lambda>n. - ENODEV\<rparr>))))
     = length (xfers k) + 1"
  by (simp add: spi_read32_Some)

text \<open>For every accepted count from 1 to 8 the loop writes word \<open>16 * msgs - 1\<close> of the
  caller's array and reads byte \<open>64 * msgs + 3\<close> of \<open>rx_rxBuf\<close>.\<close>

lemma trace_read_msgs_body:
  "trace (snd (snd (read_msgs_body n s))) = trace (snd (snd s))
     @ rx_word_accesses (0 + of_nat n * 4) (7 + of_nat n * 16) (6 + of_nat n * 16) (5 + of_nat n * 16) (4 + of_nat n * 16)
     @ rx_word_accesses (1 + of_nat n * 4) (11 + of_nat n * 16) (10 + of_nat n * 16) (9 + of_nat n * 16) (8 + of_nat n * 16)
     @ rx_word_accesses (2 + of_nat n * 4) (15 + of_nat n * 16) (14 + of_nat n * 16) (13 + of_nat n * 16) (12 + of_nat n * 16)
     @ rx_word_accesses (3 + of_nat n * 4) (19 + of_nat n * 16) (18 + of_nat n * 16) (17 + of_nat n * 16) (16 + of_nat n * 16)"
  by (simp add: read_msgs_body_def Let_def decode_word_frame)

lemma trace_fold_grows:
  "set (trace (snd (snd s))) \<subseteq> set (trace (snd (snd (fold read_msgs_body ns s))))"
proof (induction ns arbitrary: s)
  case Nil
  then show ?case by simp
next
  case (Cons n ns)
  have "set (trace (snd (snd s))) \<subseteq> set (trace (snd (snd (read_msgs_body n s))))"
    by (auto simp: trace_read_msgs_body)
  also have "\<dots> \<subseteq> set (trace (snd (snd (fold read_msgs_body ns (read_msgs_body n s)))))"
    by (rule Cons.IH)
  finally show ?case by simp
qed

lemma trace_fold_last_pass:
  assumes "n \<in> set ns"
  shows "Wr_data (unat (3 + (of_nat n :: u32) * 4))
           \<in> set (trace (snd (snd (fold read_msgs_body ns s))))
       \<and> Rd_rx_rxBuf (unat (19 + (of_nat n :: u32) * 16))
           \<in> set (trace (snd (snd (fold read_msgs_body ns s))))"
  using assms
proof (induction ns arbitrary: s)
  case Nil
  then show ?case by simp
next
  case (Cons a ns)
  show ?case
  proof (cases "n = a")
    case True
    have "Wr_data (unat (3 + (of_nat n :: u32) * 4))
            \<in> set (trace (snd (snd (read_msgs_body a s))))
        \<and> Rd_rx_rxBuf (unat (19 + (of_nat n :: u32) * 16))
            \<in> set (trace (snd (snd (read_msgs_body a s))))"
      using True by (simp add: trace_read_msgs_body rx_word_accesses_def)
    then show ?thesis
      using trace_fold_grows [of "read_msgs_body a s" ns] by auto
  next
    case False
    then have "n \<in> set ns" using Cons.prems by simp
    from Cons.IH [OF this, of "read_msgs_body a s"] show ?thesis by simp
  qed
qed

lemma trace_fold_upt:
  assumes "0 < n" and "n \<le> 32"
  shows "Wr_data (4 * n - 1) \<in> set (trace (snd (snd (fold read_msgs_body [0..<n] s))))
       \<and> Rd_rx_rxBuf (16 * n + 3) \<in> set (trace (snd (snd (fold read_msgs_body [0..<n] s))))"
proof -
  obtain j where j: "n = Suc j"
    using assms(1) by (cases n) auto
  have m: "j \<in> set [0..<n]" using j by simp
  have u: "unat (of_nat j :: u32) = j"
    using assms j by (simp add: unat_of_nat)
  have a: "unat (3 + (of_nat j :: u32) * 4) = 4 * n - 1"
    using assms u j by (simp add: unat_word_ariths)
  have b: "unat (19 + (of_nat j :: u32) * 16) = 16 * n + 3"
    using assms u j by (simp add: unat_word_ariths)
  from trace_fold_last_pass [OF m, of s] show ?thesis
    by (simp only: a b)
qed

lemma spi_read_msgs_highest_indices:
  assumes lo: "1 \<le> unat msgs" and hi: "unat msgs \<le> 8"
  shows "Wr_data (16 * unat msgs - 1) \<in> set (trace (snd (snd (snd (spi_read_msgs p a msgs dat k)))))
       \<and> Rd_rx_rxBuf (64 * unat msgs + 3) \<in> set (trace (snd (snd (snd (spi_read_msgs p a msgs dat k)))))"
proof -
  have "unat msgs = 1 \<or> unat msgs = 2 \<or> unat msgs = 3 \<or> unat msgs = 4 \<or> unat msgs = 5
      \<or> unat msgs = 6 \<or> unat msgs = 7 \<or> unat msgs = 8"
    using lo hi by arith
  then have c: "msgs = 1 \<or> msgs = 2 \<or> msgs = 3 \<or> msgs = 4 \<or> msgs = 5 \<or> msgs = 6 \<or> msgs = 7
      \<or> msgs = 8"
    by (simp add: word_unat_eq_iff)
  have n: "0 < unat (msgs * 4)" "unat (msgs * 4) \<le> 32" "unat (msgs * 4) = 4 * unat msgs"
    and s: "\<not> 8 < sint msgs"
    using c by auto
  note t = trace_fold_upt [OF n(1,2)]
  show ?thesis
    using s t
    by (simp add: spi_read_msgs_def MAX_BURST_RX_MESSAGES_def Let_def split_beta n(3))
qed

text \<open>C10 (the code departs from it). The decoding loop of \<open>spi_read_msgs\<close> runs
  \<open>msgs * 4\<close> times and handles four words per pass. For \<open>msgs = 3\<close> it reads byte 195 of
  \<open>rx_rxBuf\<close>, which has 132 bytes, and writes word 47 of the caller's array, which has
  32 words; already for \<open>msgs = 1\<close> it writes word 15, past the \<open>1 * 4\<close> words of one
  message.\<close>

theorem spi_read_msgs_loop_overruns:
  "Rd_rx_rxBuf 195 \<in> set (trace (snd (snd (snd (spi_read_msgs p a 3 dat k)))))
   \<and> rx_rxBuf_size = 132
   \<and> Wr_data 47 \<in> set (trace (snd (snd (snd (spi_read_msgs p a 3 dat k)))))
   \<and> rxBuffer_size = 32
   \<and> Wr_data 15 \<in> set (trace (snd (snd (snd (spi_read_msgs p a 1 dat k)))))"
proof -
  have a: "(1 :: nat) \<le> unat (3 :: u32)" "unat (3 :: u32) \<le> 8"
    and b: "(1 :: nat) \<le> unat (1 :: u32)" "unat (1 :: u32) \<le> 8"
    by simp_all
  from spi_read_msgs_highest_indices [OF a, of p a dat k]
    spi_read_msgs_highest_indices [OF b, of p a dat k]
  show ?thesis
    by (simp add: rx_rxBuf_size_def rxBuffer_size_def MAX_BURST_RX_MESSAGES_def)
qed

text \<open>What the overrun does to the neighbouring arrays. For every accepted count the
  stores of the loop end before \<open>tx_txBuf\<close>, which it therefore leaves as it was; with
  three messages asked for, its last store puts into \<open>txBuffer[15]\<close> the word assembled
  from bytes 60 to 63 of \<open>tx_txBuf\<close>.\<close>

lemma data_put_keeps_tx_txBuf:
  assumes "w < 130"
  shows "tx_txBuf (fst (snd (data_put w v s))) = tx_txBuf (fst (snd s))"
  using assms by (cases s) (simp add: data_put_def)

lemma decode_word_keeps_tx_txBuf:
  assumes "unat w < 130"
  shows "tx_txBuf (fst (snd (decode_word w a b c d s))) = tx_txBuf (fst (snd s))"
  using assms by (cases s) (simp add: decode_word_def split_beta data_put_keeps_tx_txBuf)

lemma read_msgs_body_keeps_tx_txBuf:
  assumes "n < 32"
  shows "tx_txBuf (fst (snd (read_msgs_body n s))) = tx_txBuf (fst (snd s))"
proof -
  have u: "unat (of_nat n :: u32) = n"
    using assms by (simp add: unat_of_nat)
  have "unat ((of_nat n :: u32) * 4) = 4 * n"
    using assms u by (simp add: unat_word_ariths)
  then have w: "unat (0 + (of_nat n :: u32) * 4) < 130" "unat (1 + (of_nat n :: u32) * 4) < 130"
    "unat (2 + (of_nat n :: u32) * 4) < 130" "unat (3 + (of_nat n :: u32) * 4) < 130"
    using assms by (simp_all add: unat_word_ariths)
  show ?thesis
    by (simp only: read_msgs_body_def Let_def decode_word_keeps_tx_txBuf [OF w(1)]
          decode_word_keeps_tx_txBuf [OF w(2)] decode_word_keeps_tx_txBuf [OF w(3)]
          decode_word_keeps_tx_txBuf [OF w(4)])
qed

lemma fold_read_msgs_body_keeps_tx_txBuf:
  assumes "\<forall>n\<in>set ns. n < 32"
  shows "tx_txBuf (fst (snd (fold read_msgs_body ns s))) = tx_txBuf (fst (snd s))"
  using assms by (induction ns arbitrary: s) (simp_all add: read_msgs_body_keeps_tx_txBuf)

lemma spi_read_msgs_overwrites_txBuffer:
  "txBuffer (fst (snd (snd (spi_read_msgs p a 3 dat k)))) 15
     = ucast (tx_txBuf p 63) + push_bit 8 (ucast (tx_txBuf p 62))
         + push_bit 16 (ucast (tx_txBuf p 61)) + push_bit 24 (ucast (tx_txBuf p 60))"
proof -
  define txb where "txb = (rx_txBuf p)(0 := 0x41, 1 := ucast (drop_bit 8 a),
                                2 := ucast (a AND 0xFF), 3 := ucast ((3 :: u32) * 4))"
  define X where "X = spi_transfer (spi p) (4 + 3 * 16) (rx_rxBuf p) txb k"
  define s0 where "s0 = (dat, p\<lparr>rx_txBuf := txb, rx_rxBuf := fst (snd X)\<rparr>, snd (snd X))"
  define s11 where "s11 = fold read_msgs_body [0..<11] s0"
  define t where "t = decode_word 46 191 190 189 188
                        (decode_word 45 187 186 185 184 (decode_word 44 183 182 181 180 s11))"
  have split: "[0..<12] = [0..<11] @ [11]"
    by (simp add: upt_rec)
  have res: "snd (spi_read_msgs p a 3 dat k) = read_msgs_body 11 s11"
    by (simp add: spi_read_msgs_def MAX_BURST_RX_MESSAGES_def Let_def split_beta split
          s11_def s0_def X_def txb_def)
  have r: "read_msgs_body 11 s11 = decode_word 47 195 194 193 192 t"
    by (simp add: read_msgs_body_def Let_def t_def)
  have "tx_txBuf (fst (snd s11)) = tx_txBuf (fst (snd s0))"
    unfolding s11_def by (rule fold_read_msgs_body_keeps_tx_txBuf) simp
  then have tt: "tx_txBuf (fst (snd t)) = tx_txBuf p"
    by (simp add: t_def decode_word_keeps_tx_txBuf s0_def)
  have "txBuffer (fst (snd (decode_word 47 195 194 193 192 t))) 15
      = rx_word (fst (snd t)) (snd (snd t)) 195 194 193 192"
    by (cases t) (simp add: decode_word_def data_put_def)
  also have "\<dots> = ucast (tx_txBuf p 63) + push_bit 8 (ucast (tx_txBuf p 62))
         + push_bit 16 (ucast (tx_txBuf p 61)) + push_bit 24 (ucast (tx_txBuf p 60))"
    by (simp add: rx_word_def rx_rxBuf_at_def tt)
  finally show ?thesis
    by (simp add: res r)
qed

text \<open>With at most six messages asked for, every access of the loop lies within the six
  transfer arrays: nothing past the end of the private struct is read or written.\<close>

lemma read_msgs_body_within:
  assumes "n < 24" and "list_all within_buffers (trace (snd (snd s)))"
  shows "list_all within_buffers (trace (snd (snd (read_msgs_body n s))))"
proof -
  have u: "unat (of_nat n :: u32) = n"
    using assms(1) by (simp add: unat_of_nat)
  have m: "unat ((of_nat n :: u32) * 4) = 4 * n" "unat ((of_nat n :: u32) * 16) = 16 * n"
    using assms(1) u by (simp_all add: unat_word_ariths)
  have b: "unat (c + (of_nat n :: u32) * 16) = unat c + 16 * n" if "unat c < 20" for c :: u32
    using that m assms(1) by (simp add: unat_word_ariths)
  have w: "unat (c + (of_nat n :: u32) * 4) = unat c + 4 * n" if "unat c < 4" for c :: u32
    using that m assms(1) by (simp add: unat_word_ariths)
  show ?thesis
    using assms
    by (simp add: trace_read_msgs_body rx_word_accesses_def b w m)
qed

lemma fold_read_msgs_body_within:
  assumes "\<forall>n\<in>set ns. n < 24" and "list_all within_buffers (trace (snd (snd s)))"
  shows "list_all within_buffers (trace (snd (snd (fold read_msgs_body ns s))))"
  using assms by (induction ns arbitrary: s) (simp_all add: read_msgs_body_within)

lemma spi_read_msgs_within:
  assumes "unat msgs \<le> 6" and "list_all within_buffers (trace k)"
  shows "list_all within_buffers (trace (snd (snd (snd (spi_read_msgs p a msgs dat k)))))"
proof -
  have "unat msgs = 0 \<or> unat msgs = 1 \<or> unat msgs = 2 \<or> unat msgs = 3 \<or> unat msgs = 4
      \<or> unat msgs = 5 \<or> unat msgs = 6"
    using assms(1) by arith
  then have c: "msgs = 0 \<or> msgs = 1 \<or> msgs = 2 \<or> msgs = 3 \<or> msgs = 4 \<or> msgs = 5 \<or> msgs = 6"
    by (simp add: word_unat_eq_iff)
  have n: "unat (msgs * 4) \<le> 24" and s: "\<not> 8 < sint msgs"
    using c by auto
  have t: "trace (snd (snd (spi_transfer (spi p) len rx tx k))) = trace k" for len rx tx
    by (cases "spi p") (simp_all add: spi_transfer_def spi_sync_def Let_def)
  show ?thesis
    using s n assms(2)
    by (simp add: spi_read_msgs_def MAX_BURST_RX_MESSAGES_def Let_def split_beta)
       (rule fold_read_msgs_body_within, simp_all add: t)
qed

section \<open>Message codec\<close>

lemma ff_mask: "(0xFF :: u32) = mask 8"
  by (simp add: mask_eq_exp_minus_1)

lemma pack4:
  fixes d0 d1 d2 d3 :: u8
  shows "(ucast d0 + push_bit 8 (ucast d1) + push_bit 16 (ucast d2) + push_bit 24 (ucast d3) :: u32)
       = ((ucast d0 OR push_bit 8 (ucast d1)) OR push_bit 16 (ucast d2)) OR push_bit 24 (ucast d3)"
proof -
  have a: "(ucast d0 + push_bit 8 (ucast d1) :: u32) = ucast d0 OR push_bit 8 (ucast d1)"
    by (rule disjunctive_add_eq_or) (auto simp: bit_eq_iff bit_simps dest: bit_imp_le_length)
  have b: "((ucast d0 OR push_bit 8 (ucast d1)) + push_bit 16 (ucast d2) :: u32)
      = (ucast d0 OR push_bit 8 (ucast d1)) OR push_bit 16 (ucast d2)"
    by (rule disjunctive_add_eq_or) (auto simp: bit_eq_iff bit_simps dest: bit_imp_le_length)
  have c: "(((ucast d0 OR push_bit 8 (ucast d1)) OR push_bit 16 (ucast d2)) + push_bit 24 (ucast d3) :: u32)
      = ((ucast d0 OR push_bit 8 (ucast d1)) OR push_bit 16 (ucast d2)) OR push_bit 24 (ucast d3)"
    by (rule disjunctive_add_eq_or) (auto simp: bit_eq_iff bit_simps dest: bit_imp_le_length)
  show ?thesis by (simp only: a b c)
qed

lemma unpack4:
  fixes d0 d1 d2 d3 :: u8
  defines "w \<equiv> (((ucast d0 OR push_bit 8 (ucast d1)) OR push_bit 16 (ucast d2)) OR push_bit 24 (ucast d3) :: u32)"
  shows "ucast (w AND 0xFF) = d0"
    and "ucast (drop_bit 8 w AND 0xFF) = d1"
    and "ucast (drop_bit 16 w AND 0xFF) = d2"
    and "ucast (drop_bit 24 w AND 0xFF) = d3"
  unfolding w_def ff_mask
  by (auto simp: bit_eq_iff bit_simps dest: bit_imp_le_length)

lemma bytes_roundtrip:
  fixes d0 d1 d2 d3 :: u8
  defines "w \<equiv> (ucast d0 + push_bit 8 (ucast d1) + push_bit 16 (ucast d2) + push_bit 24 (ucast d3) :: u32)"
  shows "ucast (w AND 0xFF) = d0"
    and "ucast (drop_bit 8 w AND 0xFF) = d1"
    and "ucast (drop_bit 16 w AND 0xFF) = d2"
    and "ucast (drop_bit 24 w AND 0xFF) = d3"
  unfolding w_def pack4 by (rule unpack4)+

lemma len_roundtrip:
  fixes l :: u8
  assumes "l \<le> 8"
  shows "ucast (drop_bit 16 (push_bit 16 (if 8 < (ucast l :: u32) then 8 else (ucast l :: u32)))
           AND 0x7F) = l"
proof -
  have "unat l < 2 ^ 32"
    using unsigned_less [of l, where 'a = nat] by simp
  then have u: "unat (ucast l :: u32) = unat l"
    by (simp add: unsigned_ucast_eq take_bit_nat_eq_self_iff)
  have n: "\<not> 8 < (ucast l :: u32)"
    using assms u by (simp add: word_less_nat_alt word_le_nat_alt)
  have m: "(0x7F :: u32) = mask 7" by (simp add: mask_eq_exp_minus_1)
  have "l < 2 ^ 4" using assms by (simp add: word_less_nat_alt word_le_nat_alt)
  then have l4: "l AND mask 4 = l" by (rule less_mask_eq)
  have b: "n < 4" if "bit l n" for n
  proof -
    from that have "bit (l AND mask 4) n" by (simp add: l4)
    then show ?thesis by (simp add: bit_simps)
  qed
  show ?thesis
    unfolding m by (rule bit_word_eqI) (use n in \<open>auto simp: bit_simps dest: b\<close>)
qed

lemma id_ext_roundtrip:
  fixes c :: u32
  assumes e: "c AND 0x80000000 \<noteq> 0" and r: "c AND 0x40000000 = 0" and x: "c AND 0x20000000 = 0"
  shows "((c AND 0x1FFFFFFF) + (push_bit 29 0 + push_bit 30 1)) AND push_bit 30 1 \<noteq> 0"
    and "(((c AND 0x1FFFFFFF) + (push_bit 29 0 + push_bit 30 1)) AND 0x1FFFFFFF) OR 0x80000000 = c"
proof -
  define e31 e30 e29 :: u32 where "e31 = 2 ^ 31" and "e30 = 2 ^ 30" and "e29 = 2 ^ 29"
  have k: "(0x80000000 :: u32) = e31" "(0x40000000 :: u32) = e30" "(0x20000000 :: u32) = e29"
    "(0x1FFFFFFF :: u32) = mask 29" "(push_bit 29 0 + push_bit 30 1 :: u32) = e30"
    "(push_bit 30 1 :: u32) = e30" "push_bit 29 0 + e30 = e30"
    by (simp_all add: mask_eq_exp_minus_1 e31_def e30_def e29_def)
  have be: "bit e31 n = (n = 31)" "bit e30 n = (n = 30)" "bit e29 n = (n = 29)" for n
    unfolding e31_def e30_def e29_def
    by (simp_all only: bit_exp_iff possible_bit_word) auto
  have b31: "bit c 31"
    using e unfolding k e31_def by (simp only: and_exp_eq_0_iff_not_bit simp_thms)
  have b30: "\<not> bit c 30"
    using r unfolding k e30_def by (simp only: and_exp_eq_0_iff_not_bit simp_thms)
  have b29: "\<not> bit c 29"
    using x unfolding k e29_def by (simp only: and_exp_eq_0_iff_not_bit simp_thms)
  have "(c AND mask 29) AND e30 = 0"
    by (rule bit_word_eqI) (auto simp: bit_simps be)
  then have s: "(c AND mask 29) + e30 = (c AND mask 29) OR e30"
    by (rule disjunctive_add_eq_or)
  have "bit (((c AND mask 29) OR e30) AND e30) 30"
    by (simp add: bit_simps be)
  then have "((c AND mask 29) OR e30) AND e30 \<noteq> 0"
    by auto
  then show "((c AND 0x1FFFFFFF) + (push_bit 29 0 + push_bit 30 1)) AND push_bit 30 1 \<noteq> 0"
    unfolding k s .
  have t: "bit c n = (n < 29 \<and> bit c n \<or> n = 31)" if "n < 32" for n
  proof (cases "n < 29 \<or> n = 31")
    case True then show ?thesis using b31 by auto
  next
    case False
    then have "n = 29 \<or> n = 30" using that by arith
    then show ?thesis using False b29 b30 by auto
  qed
  have "(((c AND mask 29) OR e30) AND mask 29) OR e31 = c"
    by (rule bit_word_eqI) (use t in \<open>auto simp: bit_simps be\<close>)
  then show "(((c AND 0x1FFFFFFF) + (push_bit 29 0 + push_bit 30 1)) AND 0x1FFFFFFF) OR 0x80000000 = c"
    unfolding k s .
qed

lemma id_std_roundtrip:
  fixes c :: u32
  assumes "c \<le> 0x7FF"
  shows "(push_bit 18 (c AND 0x7FF) + (push_bit 29 0 + push_bit 30 0)) AND push_bit 30 1 = 0"
    and "drop_bit 18 (push_bit 18 (c AND 0x7FF) + (push_bit 29 0 + push_bit 30 0)) AND 0x7FF = c"
    and "c AND 0x40000000 = 0" and "c AND 0x7FF = c"
proof -
  define e30 :: u32 where "e30 = 2 ^ 30"
  have k: "(0x40000000 :: u32) = e30" "(push_bit 30 1 :: u32) = e30"
    "(0x7FF :: u32) = mask 11" "(push_bit 29 0 + push_bit 30 0 :: u32) = 0"
    by (simp_all add: mask_eq_exp_minus_1 e30_def)
  have be: "bit e30 n = (n = 30)" for n
    unfolding e30_def
    by (simp only: bit_exp_iff possible_bit_word) auto
  have "c < 2 ^ 11" using assms by (simp add: word_less_nat_alt word_le_nat_alt)
  then have c11: "c AND mask 11 = c" by (rule less_mask_eq)
  have b: "n < 11" if "bit c n" for n
  proof -
    from that have "bit (c AND mask 11) n" by (simp add: c11)
    then show ?thesis by (simp add: bit_simps)
  qed
  have "push_bit 18 (c AND mask 11) AND e30 = 0"
    by (rule bit_word_eqI) (auto simp: bit_simps be dest: b)
  then show "(push_bit 18 (c AND 0x7FF) + (push_bit 29 0 + push_bit 30 0)) AND push_bit 30 1 = 0"
    unfolding k by simp
  have "drop_bit 18 (push_bit 18 (c AND mask 11)) AND mask 11 = c"
    by (rule bit_word_eqI) (auto simp: bit_simps be dest: b)
  then show "drop_bit 18 (push_bit 18 (c AND 0x7FF) + (push_bit 29 0 + push_bit 30 0)) AND 0x7FF = c"
    unfolding k by simp
  have "c AND e30 = 0"
    by (rule bit_word_eqI) (auto simp: bit_simps be dest: b)
  then show "c AND 0x40000000 = 0"
    unfolding k .
  show "c AND 0x7FF = c"
    unfolding k by (rule c11)
qed



text \<open>C1 (the code departs from it). \<open>tcan4550_composeMessage\<close> stores the remote-request
  flag in bit 29 of the first word, but the decoding in \<open>tcan4550_recMsgs\<close> never reads
  that bit: the standard remote-request frame with identifier 0x123 and length 2 comes
  back as a data frame, without \<open>CAN_RTR_FLAG\<close>; identifier bits, length and payload are
  kept.\<close>

theorem codec_drops_remote_request:
  "recMsgs_decode
     (tcan4550_composeMessage \<lparr>can_id = 0x40000123, len = 2, data = (\<lambda>i. 0)\<rparr> 0 buf)
     \<lparr>can_id = 0, len = 0, data = (\<lambda>i. 0)\<rparr>
   = \<lparr>can_id = 0x123, len = 2, data = (\<lambda>i. 0)\<rparr>"
  by (simp add: recMsgs_decode_def tcan4550_composeMessage_def Let_def CAN_EFF_FLAG_def
        CAN_RTR_FLAG_def CAN_SFF_MASK_def CAN_EFF_MASK_def fun_eq_iff)

text \<open>For every frame without the remote-request and error flags, with length at most 8
  and, when it is a standard frame, an identifier of at most 11 bits, decoding what
  \<open>tcan4550_composeMessage\<close> wrote gives back the identifier word with its extended flag,
  the length and the eight payload bytes.\<close>

lemma codec_roundtrip_without_rtr:
  assumes l8: "len f \<le> 8"
    and nortr: "can_id f AND CAN_RTR_FLAG = 0"
    and noerr: "can_id f AND CAN_ERR_FLAG = 0"
    and std: "can_id f AND CAN_EFF_FLAG = 0 \<longrightarrow> can_id f \<le> 0x7FF"
  shows "can_id (recMsgs_decode (tcan4550_composeMessage f 0 buf) cf) = can_id f
       \<and> len (recMsgs_decode (tcan4550_composeMessage f 0 buf) cf) = len f
       \<and> (\<forall>i<8. data (recMsgs_decode (tcan4550_composeMessage f 0 buf) cf) i = data f i)"
proof -
  have L: "len (recMsgs_decode (tcan4550_composeMessage f 0 buf) cf) = len f"
    using len_roundtrip [OF l8]
    by (simp add: recMsgs_decode_def tcan4550_composeMessage_def Let_def)
  have I: "can_id (recMsgs_decode (tcan4550_composeMessage f 0 buf) cf) = can_id f"
  proof (cases "can_id f AND CAN_EFF_FLAG = 0")
    case True
    then have "can_id f \<le> 0x7FF" using std by simp
    from id_std_roundtrip [OF this] True nortr show ?thesis
      by (simp add: recMsgs_decode_def tcan4550_composeMessage_def Let_def CAN_EFF_FLAG_def
            CAN_RTR_FLAG_def CAN_SFF_MASK_def CAN_EFF_MASK_def)
  next
    case False
    from id_ext_roundtrip [of "can_id f"] False nortr noerr show ?thesis
      by (simp add: recMsgs_decode_def tcan4550_composeMessage_def Let_def CAN_EFF_FLAG_def
            CAN_RTR_FLAG_def CAN_ERR_FLAG_def CAN_SFF_MASK_def CAN_EFF_MASK_def)
  qed
  have D: "data (recMsgs_decode (tcan4550_composeMessage f 0 buf) cf) i = data f i" if "i < 8" for i
  proof -
    from that have "i = 0 \<or> i = 1 \<or> i = 2 \<or> i = 3 \<or> i = 4 \<or> i = 5 \<or> i = 6 \<or> i = 7"
      by arith
    then show ?thesis
      by (auto simp: recMsgs_decode_def tcan4550_composeMessage_def Let_def bytes_roundtrip)
  qed
  from L I D show ?thesis by blast
qed

section \<open>Hardware FIFO coordination\<close>







text \<open>C6. When the read of \<open>RXF0S\<close> reports fill level 5 and get index 10, one pass of
  \<open>tcan4550_recMsgs\<close> makes exactly three SPI exchanges: the status read, one burst read of
  20 words (five messages) at 0x82A0 (slot 10), and one write of the value 14 to the
  acknowledge register \<open>RXF0A\<close> (0x10A8). That write is the only write of the pass.\<close>

theorem rx_acknowledge_last_index:
  assumes sp: "spi (priv dev) = Some d"
    and fill: "fst (spi_read32 (spi (priv dev)) RXF0S k) AND 0x7F = 5"
    and idx: "drop_bit 8 (fst (spi_read32 (spi (priv dev)) RXF0S k)) AND 0x3F = 10"
  shows "map (take 4) (drop (length (xfers k)) (xfers (snd (snd (tcan4550_recMsgs dev k)))))
           = [[0x41, 0x10, 0xA4, 0x01], [0x41, 0x82, 0xA0, 0x14], [0x61, 0x10, 0xA8, 0x01]]
         \<and> last (xfers (snd (snd (tcan4550_recMsgs dev k))))
           = [0x61, 0x10, 0xA8, 0x01, 0x00, 0x00, 0x00, 0x0E]"
proof -
  obtain rxf0s k1 where r1: "spi_read32 (Some d) RXF0S k = (rxf0s, k1)"
    by (cases "spi_read32 (Some d) RXF0S k")
  have k1: "xfers k1 = xfers k @ [[0x41, 0x10, 0xA4, 1, stack k 4, stack k 5, stack k 6, stack k 7]]"
    using r1 by (auto simp: spi_read32_Some RXF0S_def)
  have f5: "rxf0s AND 0x7F = 5" and i10: "drop_bit 8 rxf0s AND 0x3F = 10"
    using fill idx sp r1 by simp_all
  have m: "rx_msgsToGet 5 10 = 5"
    by (simp add: rx_msgsToGet_def RX_MSG_BOXES_def MAX_BURST_RX_MESSAGES_def)
  obtain ret dat p1 k2 where r2:
    "spi_read_msgs (priv dev) 0x82A0 5 (rxBuffer (priv dev)) k1 = (ret, dat, p1, k2)"
    by (cases "spi_read_msgs (priv dev) 0x82A0 5 (rxBuffer (priv dev)) k1") auto
  have k2: "xfers k2 = xfers k1 @ [map ((rx_txBuf (priv dev))(0 := 0x41, 1 := 0x82, 2 := 0xA0, 3 := 0x14)) [0..<84]]"
    and p1: "spi p1 = Some d"
    using spi_read_msgs_xfers [OF sp, of 5 "0x82A0" "rxBuffer (priv dev)" k1] r2 by simp_all
  show ?thesis
    using sp r1 f5 i10 m r2 k1 k2 p1
    by (simp add: tcan4550_recMsgs_def Let_def MRAM_BASE_def RX_FIFO_START_ADDRESS_def
          RX_SLOT_SIZE_def spi_write32_Some xfers_fold_recMsgs_body RXF0A_def
          take_map upt_0_4 split: prod.split)
qed

theorem rx_acknowledge_last_index_witness:
  "spi (priv dev_open) = Some \<lparr>irq = 0\<rparr>
   \<and> fst (spi_read32 (spi (priv dev_open)) RXF0S (kernel_answering (\<lambda>n. 0x0A05))) AND 0x7F = 5
   \<and> drop_bit 8 (fst (spi_read32 (spi (priv dev_open)) RXF0S (kernel_answering (\<lambda>n. 0x0A05))))
        AND 0x3F = 10
   \<and> last (xfers (snd (snd (tcan4550_recMsgs dev_open (kernel_answering (\<lambda>n. 0x0A05))))))
        = [0x61, 0x10, 0xA8, 0x01, 0x00, 0x00, 0x00, 0x0E]"
proof -
  let ?k = "kernel_answering (\<lambda>n. 0x0A05)"
  have sp: "spi (priv dev_open) = Some \<lparr>irq = 0\<rparr>"
    by (simp add: dev_open_def priv_open_def)
  have w: "fst (spi_read32 (spi (priv dev_open)) RXF0S ?k) = 0x0A05"
    by (simp add: sp spi_read32_Some kernel_answering_def answer_byte_def)
  have fill: "fst (spi_read32 (spi (priv dev_open)) RXF0S ?k) AND 0x7F = 5"
    and idx: "drop_bit 8 (fst (spi_read32 (spi (priv dev_open)) RXF0S ?k)) AND 0x3F = 10"
    by (simp_all add: w)
  show ?thesis
    using sp fill idx rx_acknowledge_last_index [OF sp fill idx] by blast
qed

text \<open>In that pass every access of the decoding loop lies within the six transfer arrays.\<close>

lemma trace_spi_read32: "trace (snd (spi_read32 sp a k)) = trace k"
  by (cases sp) (simp_all add: spi_read32_def spi_transfer_def spi_sync_def Let_def)

lemma trace_spi_write32: "trace (snd (spi_write32 sp a v k)) = trace k"
  by (cases sp) (simp_all add: spi_write32_def spi_transfer_def spi_sync_def Let_def)

lemma trace_fold_recMsgs_body:
  "trace (snd (fold recMsgs_body ns (dev, k))) = trace k"
  by (induction ns arbitrary: dev k)
     (simp_all add: recMsgs_body_def Let_def alloc_can_skb_def netif_rx_def
        split: option.split prod.split)

lemma rx_pass_within_buffers:
  assumes fill: "fst (spi_read32 (spi (priv dev)) RXF0S k) AND 0x7F = 5"
    and idx: "drop_bit 8 (fst (spi_read32 (spi (priv dev)) RXF0S k)) AND 0x3F = 10"
    and tr: "list_all within_buffers (trace k)"
  shows "list_all within_buffers (trace (snd (snd (tcan4550_recMsgs dev k))))"
proof -
  have m: "rx_msgsToGet 5 10 = 5"
    by (simp add: rx_msgsToGet_def RX_MSG_BOXES_def MAX_BURST_RX_MESSAGES_def)
  have "list_all within_buffers
          (trace (snd (snd (snd (spi_read_msgs p a 5 dat (snd (spi_read32 sp RXF0S k)))))))"
    for p a dat sp
    by (rule spi_read_msgs_within) (simp_all add: trace_spi_read32 tr)
  then show ?thesis
    using fill idx
    by (simp add: tcan4550_recMsgs_def Let_def split_beta m trace_fold_recMsgs_body
          trace_spi_write32)
qed

section \<open>Event dispatcher\<close>

text \<open>The explicit restart: \<open>tcan4550_set_mode\<close> with \<open>CAN_MODE_START\<close> answers 0, empties the
  staging queue, sets the state to error-active and starts the transmit queue again; any
  other mode is refused with \<open>-EOPNOTSUPP\<close> and changes nothing.\<close>

lemma restart_reopens_queue:
  assumes "tcan4550_set_mode dev CAN_MODE_START k = (r, dev', k')"
  shows "r = 0 \<and> tx_head (priv dev') = 0 \<and> tx_tail (priv dev') = 0
       \<and> can_state (priv dev') = CAN_STATE_ERROR_ACTIVE \<and> \<not> queue_stopped k'"
  using assms
  by (auto simp: tcan4550_set_mode_def tcan4550_init_def Let_def netif_start_queue_def
        split: prod.splits)

lemma other_modes_refused:
  assumes "mode \<noteq> CAN_MODE_START"
  shows "tcan4550_set_mode dev mode k = (- 95, dev, k)"
  using assms by (cases mode) (simp_all add: tcan4550_set_mode_def EOPNOTSUPP_def)

text \<open>C4 as stated fails in two ways. When the buffer for the error frame cannot be
  allocated, the interrupt status is the bus-off bit alone and yet nothing is delivered
  upward. And the driver does not itself refuse submissions after the pass: with the
  buffer allocated and no restart, \<open>tcan_start_xmit\<close> called on the state the handler
  leaves still answers \<open>NETDEV_TX_OK\<close> and stages the frame, although the queue's stop flag
  is set and the state is bus-off.\<close>

theorem bus_off_claim_counterexample:
  "fst (spi_read32 (spi (priv dev_open)) IR
          ((kernel_answering (\<lambda>n. 0x02000000))\<lparr>skb_alloc := \<lambda>n. False\<rparr>)) = BO
   \<and> delivered (snd (snd (tcan4450_handleInterrupts dev_open
          ((kernel_answering (\<lambda>n. 0x02000000))\<lparr>skb_alloc := \<lambda>n. False\<rparr>)))) = []
   \<and> fst (spi_read32 (spi (priv dev_open)) IR (kernel_answering (\<lambda>n. 0x02000000))) = BO
   \<and> queue_stopped (snd (snd (tcan4450_handleInterrupts dev_open
          (kernel_answering (\<lambda>n. 0x02000000)))))
   \<and> can_state (priv (fst (snd (tcan4450_handleInterrupts dev_open
          (kernel_answering (\<lambda>n. 0x02000000)))))) = CAN_STATE_BUS_OFF
   \<and> fst (tcan_start_xmit \<lparr>can_id = 0x123, len = 0, data = (\<lambda>i. 0)\<rparr>
            (fst (snd (tcan4450_handleInterrupts dev_open (kernel_answering (\<lambda>n. 0x02000000)))))
            (snd (snd (tcan4450_handleInterrupts dev_open (kernel_answering (\<lambda>n. 0x02000000))))))
       = NETDEV_TX_OK
   \<and> tx_head (priv (fst (snd (tcan_start_xmit \<lparr>can_id = 0x123, len = 0, data = (\<lambda>i. 0)\<rparr>
            (fst (snd (tcan4450_handleInterrupts dev_open (kernel_answering (\<lambda>n. 0x02000000)))))
            (snd (snd (tcan4450_handleInterrupts dev_open (kernel_answering (\<lambda>n. 0x02000000)))))))))
       = 1"
  by (simp add: tcan4450_handleInterrupts_def dev_open_def priv_open_def spi_read32_Some
        spi_write32_Some kernel_answering_def answer_byte_def Let_def BO_def RF0N_def TFE_def
        EW_def EP_def handle_bus_off_def can_bus_off_def alloc_can_err_skb_def
        netif_stop_queue_def netif_rx_def tcan_start_xmit_def TX_BUFFER_SIZE_def
        queue_work_def word_le_nat_alt)

text \<open>C4, amended. When the read of the interrupt register gives the bus-off bit alone,
  the handler answers \<open>IRQ_HANDLED\<close>, sets the state to bus-off, and makes three SPI
  exchanges: the read of \<open>IR\<close>, the acknowledging write to \<open>IR\<close>, and a write of 0 to the
  interrupt-enable register \<open>IE\<close> (0x1054). It delivers exactly one error frame marked
  bus-off if the buffer for it can be allocated and none otherwise. It stops the transmit
  queue: the stop flag is set when the pass ends, and a restart from there
  (\<open>tcan4550_set_mode\<close> with \<open>CAN_MODE_START\<close>) answers 0, sets the state to error-active,
  empties the staging queue and clears the flag.\<close>

theorem bus_off_dispatch:
  assumes sp: "spi (priv dev) = Some d"
    and ir: "fst (spi_read32 (spi (priv dev)) IR k) = BO"
    and run: "tcan4450_handleInterrupts dev k = (r, dev', k')"
    and restart: "tcan4550_set_mode dev' CAN_MODE_START k' = (r2, dev2, k2)"
  shows "r = IRQ_HANDLED
       \<and> can_state (priv dev') = CAN_STATE_BUS_OFF
       \<and> map (take 4) (drop (length (xfers k)) (xfers k'))
            = [[0x41, 0x10, 0x50, 0x01], [0x61, 0x10, 0x50, 0x01], [0x61, 0x10, 0x54, 0x01]]
       \<and> last (xfers k') = [0x61, 0x10, 0x54, 0x01, 0x00, 0x00, 0x00, 0x00]
       \<and> delivered k' = delivered k @
            (if skb_alloc k (allocs k)
             then [\<lparr>can_id = CAN_ERR_FLAG OR CAN_ERR_BUSOFF, len = CAN_ERR_DLC, data = (\<lambda>i. 0)\<rparr>]
             else [])
       \<and> queue_stopped k'
       \<and> r2 = 0 \<and> can_state (priv dev2) = CAN_STATE_ERROR_ACTIVE
       \<and> tx_head (priv dev2) = 0 \<and> tx_tail (priv dev2) = 0 \<and> \<not> queue_stopped k2"
proof -
  obtain w k1 where r1: "spi_read32 (Some d) IR k = (w, k1)"
    by (cases "spi_read32 (Some d) IR k")
  have w: "w = BO" using ir sp r1 by simp
  have k1: "k1 = k\<lparr>xfers := xfers k @ [[0x41, 0x10, 0x50, 1, stack k 4, stack k 5, stack k 6, stack k 7]]\<rparr>"
    using r1 by (auto simp: spi_read32_Some IR_def)
  have pass: "r = IRQ_HANDLED
       \<and> can_state (priv dev') = CAN_STATE_BUS_OFF
       \<and> map (take 4) (drop (length (xfers k)) (xfers k'))
            = [[0x41, 0x10, 0x50, 0x01], [0x61, 0x10, 0x50, 0x01], [0x61, 0x10, 0x54, 0x01]]
       \<and> last (xfers k') = [0x61, 0x10, 0x54, 0x01, 0x00, 0x00, 0x00, 0x00]
       \<and> delivered k' = delivered k @
            (if skb_alloc k (allocs k)
             then [\<lparr>can_id = CAN_ERR_FLAG OR CAN_ERR_BUSOFF, len = CAN_ERR_DLC, data = (\<lambda>i. 0)\<rparr>]
             else [])
       \<and> queue_stopped k'"
    using run sp r1
    by (auto simp: tcan4450_handleInterrupts_def w k1 Let_def BO_def RF0N_def TFE_def EW_def EP_def
          spi_write32_Some IR_def IE_def handle_bus_off_def can_bus_off_def alloc_can_err_skb_def
          netif_rx_def netif_stop_queue_def split: prod.splits)
  from restart_reopens_queue [OF restart] pass show ?thesis
    by blast
qed

theorem bus_off_dispatch_witness:
  "spi (priv dev_open) = Some \<lparr>irq = 0\<rparr>
   \<and> fst (spi_read32 (spi (priv dev_open)) IR (kernel_answering (\<lambda>n. 0x02000000))) = BO
   \<and> can_state (priv (fst (snd (tcan4450_handleInterrupts dev_open
        (kernel_answering (\<lambda>n. 0x02000000)))))) = CAN_STATE_BUS_OFF
   \<and> delivered (snd (snd (tcan4450_handleInterrupts dev_open
        (kernel_answering (\<lambda>n. 0x02000000)))))
      = [\<lparr>can_id = CAN_ERR_FLAG OR CAN_ERR_BUSOFF, len = CAN_ERR_DLC, data = (\<lambda>i. 0)\<rparr>]
   \<and> queue_stopped (snd (snd (tcan4450_handleInterrupts dev_open
        (kernel_answering (\<lambda>n. 0x02000000)))))
   \<and> \<not> queue_stopped (snd (snd (tcan4550_set_mode
        (fst (snd (tcan4450_handleInterrupts dev_open (kernel_answering (\<lambda>n. 0x02000000)))))
        CAN_MODE_START
        (snd (snd (tcan4450_handleInterrupts dev_open (kernel_answering (\<lambda>n. 0x02000000))))))))"
proof -
  let ?k = "kernel_answering (\<lambda>n. 0x02000000)"
  let ?R = "tcan4450_handleInterrupts dev_open ?k"
  let ?S = "tcan4550_set_mode (fst (snd ?R)) CAN_MODE_START (snd (snd ?R))"
  have sp: "spi (priv dev_open) = Some \<lparr>irq = 0\<rparr>"
    by (simp add: dev_open_def priv_open_def)
  have ir: "fst (spi_read32 (spi (priv dev_open)) IR ?k) = BO"
    by (simp add: sp spi_read32_Some kernel_answering_def answer_byte_def BO_def)
  have run: "?R = (fst ?R, fst (snd ?R), snd (snd ?R))"
    by simp
  have restart: "?S = (fst ?S, fst (snd ?S), snd (snd ?S))"
    by simp
  have a: "skb_alloc ?k (allocs ?k)" and b: "delivered ?k = []"
    by (simp_all add: kernel_answering_def)
  show ?thesis
    using sp ir a b bus_off_dispatch [OF sp ir run restart] by simp
qed

section \<open>Software transmit staging queue\<close>

lemma tcan_start_xmit_accept:
  assumes "\<not> dropped_invalid k skb" and "tx_tail (priv dev) = 0"
    and "unat (tx_head (priv dev)) < 16"
  shows "tcan_start_xmit skb dev k =
           (NETDEV_TX_OK,
            dev\<lparr>priv := (priv dev)\<lparr>tx_skb_buf := (tx_skb_buf (priv dev))(unat (tx_head (priv dev)) := skb),
                                   tx_head := tx_head (priv dev) + 1\<rparr>\<rparr>,
            queue_work k)"
proof -
  have u: "unat (tx_head (priv dev) + 1) = unat (tx_head (priv dev)) + 1"
    using assms(3) by (simp add: unat_word_ariths)
  then have a: "\<not> 17 \<le> tx_head (priv dev) + 1"
    using assms(3) by (simp add: word_le_nat_alt)
  from u have b: "tx_head (priv dev) + 1 \<noteq> 0"
    by (metis Suc_eq_plus1 nat.distinct(1) unat_0)
  show ?thesis
    using assms a b by (simp add: tcan_start_xmit_def Let_def TX_BUFFER_SIZE_def)
qed

lemma xmit_all_fill:
  assumes "\<forall>s. \<not> dropped_invalid k s" and "tx_tail (priv dev) = 0"
    and "unat (tx_head (priv dev)) + length skbs \<le> 16"
    and "xmit_all skbs dev k = (rs, dev', k')"
  shows "rs = replicate (length skbs) NETDEV_TX_OK
       \<and> tx_head (priv dev') = tx_head (priv dev) + of_nat (length skbs)
       \<and> tx_tail (priv dev') = 0
       \<and> spi (priv dev') = spi (priv dev)
       \<and> k' = k\<lparr>work_queued := work_queued k + length skbs\<rparr>"
  using assms
proof (induction skbs arbitrary: dev k rs dev' k')
  case Nil
  then show ?case by simp
next
  case (Cons s skbs)
  have lt: "unat (tx_head (priv dev)) < 16" using Cons.prems(3) by simp
  note acc = tcan_start_xmit_accept [OF Cons.prems(1) [rule_format] Cons.prems(2) lt, of s]
  let ?dev1 = "dev\<lparr>priv := (priv dev)\<lparr>tx_skb_buf := (tx_skb_buf (priv dev))(unat (tx_head (priv dev)) := s),
                                   tx_head := tx_head (priv dev) + 1\<rparr>\<rparr>"
  obtain rs1 where rest: "xmit_all skbs ?dev1 (queue_work k) = (rs1, dev', k')"
    and rs: "rs = NETDEV_TX_OK # rs1"
    using Cons.prems(4) by (auto simp: acc Let_def split: prod.splits)
  have u: "unat (tx_head (priv dev) + 1) = unat (tx_head (priv dev)) + 1"
    using lt by (simp add: unat_word_ariths)
  have ih: "rs1 = replicate (length skbs) NETDEV_TX_OK
       \<and> tx_head (priv dev') = tx_head (priv ?dev1) + of_nat (length skbs)
       \<and> tx_tail (priv dev') = 0
       \<and> spi (priv dev') = spi (priv ?dev1)
       \<and> k' = (queue_work k)\<lparr>work_queued := work_queued (queue_work k) + length skbs\<rparr>"
    using Cons.prems(1,2,3) u
    by (intro Cons.IH [OF _ _ _ rest]) (simp_all add: queue_work_def)
  then show ?case using rs by (simp add: queue_work_def)
qed

lemma tx_msgsToTransmit_one:
  assumes "w \<le> 31" shows "tx_msgsToTransmit 1 w = 1"
proof -
  have "unat (w + 1) = unat w + 1"
    using assms by (simp add: unat_word_ariths word_le_nat_alt)
  then have "\<not> 32 < w + 1"
    using assms by (simp add: word_less_nat_alt word_le_nat_alt)
  then show ?thesis
    by (simp add: tx_msgsToTransmit_def TX_MSG_BOXES_def MAX_BURST_TX_MESSAGES_def)
qed

lemma tx_loop_one:
  assumes "tx_head (priv dev) = 16" and "tx_tail (priv dev) = 0"
  shows "fst (tx_loop 1 0 w 0 dev k) = 1
       \<and> tx_head (priv (fst (snd (snd (tx_loop 1 0 w 0 dev k))))) = 16
       \<and> tx_tail (priv (fst (snd (snd (tx_loop 1 0 w 0 dev k))))) = 1
       \<and> dropped_invalid (snd (snd (snd (tx_loop 1 0 w 0 dev k)))) = dropped_invalid k"
  using assms
  by (simp add: tx_loop.simps [of 1 0] tx_loop.simps [of 1 1] Let_def TX_BUFFER_SIZE_def
        can_echo_def)

lemma tx_work_handler_one:
  assumes h: "tx_head (priv dev) = 16" and t: "tx_tail (priv dev) = 0"
    and free: "fst (spi_read32 (spi (priv dev)) TXQFS k) AND 0x3F = 1"
    and run: "tcan4550_tx_work_handler dev k = (dev', k')"
  shows "tx_head (priv dev') = 16 \<and> tx_tail (priv dev') = 1
       \<and> dropped_invalid k' = dropped_invalid k"
proof -
  obtain txqfs k1 where r1: "spi_read32 (spi (priv dev)) TXQFS k = (txqfs, k1)"
    by (cases "spi_read32 (spi (priv dev)) TXQFS k")
  have f: "txqfs AND 0x3F = 1" using free r1 by simp
  have d1: "dropped_invalid k1 = dropped_invalid k"
    using spi_read32_dropped_invalid [of "spi (priv dev)" TXQFS k] r1 by simp
  have w: "drop_bit 16 txqfs AND 0x1F \<le> 31"
    by (rule word_and_le1)
  note m = tx_msgsToTransmit_one [OF w]
  note l = tx_loop_one [OF h t, of "drop_bit 16 txqfs AND 0x1F" k1]
  obtain msgs requestMask dev1 k2 where
    r2: "tx_loop 1 0 (drop_bit 16 txqfs AND 0x1F) 0 dev k1 = (msgs, requestMask, dev1, k2)"
    by (cases "tx_loop 1 0 (drop_bit 16 txqfs AND 0x1F) 0 dev k1") auto
  have l': "msgs = 1" "tx_head (priv dev1) = 16" "tx_tail (priv dev1) = 1"
    "dropped_invalid k2 = dropped_invalid k1"
    using l r2 by simp_all
  obtain ret p1 k3 where
    r3: "spi_write_msgs (priv dev1)
           (MRAM_BASE + TX_FIFO_START_ADDRESS + (drop_bit 16 txqfs AND 0x1F) * TX_SLOT_SIZE) 1
           (txBuffer (priv dev1)) k2 = (ret, p1, k3)"
    by (cases "spi_write_msgs (priv dev1)
           (MRAM_BASE + TX_FIFO_START_ADDRESS + (drop_bit 16 txqfs AND 0x1F) * TX_SLOT_SIZE) 1
           (txBuffer (priv dev1)) k2") auto
  have p1: "tx_head p1 = 16" "tx_tail p1 = 1" "dropped_invalid k3 = dropped_invalid k2"
    using spi_write_msgs_frame [of "priv dev1"
           "MRAM_BASE + TX_FIFO_START_ADDRESS + (drop_bit 16 txqfs AND 0x1F) * TX_SLOT_SIZE" 1
           "txBuffer (priv dev1)" k2] r3 l' by simp_all
  note d4 = spi_write32_dropped_invalid [of "spi p1" TXBAR requestMask k3]
  show ?thesis
    using run r1 f m r2 l' r3 p1 d4 d1
    by (auto simp: tcan4550_tx_work_handler_def Let_def split: prod.splits)
qed

lemma queue_index_tests:
  assumes "n \<le> 16"
  shows "((of_nat n :: u32) = 0) = (n = 0)"
    and "(((of_nat n :: u32) + 1) mod 17 = 0) = (n = 16)"
proof -
  have u: "unat (of_nat n :: u32) = n"
    using assms by (simp add: unat_of_nat)
  have "((of_nat n :: u32) = 0) = (unat (of_nat n :: u32) = unat (0 :: u32))"
    by (rule word_unat_eq_iff)
  then show "((of_nat n :: u32) = 0) = (n = 0)"
    using u by simp
  have m: "unat (((of_nat n :: u32) + 1) mod 17) = (n + 1) mod 17"
    using u assms by (simp add: unat_mod unat_word_ariths)
  have "((n + 1) mod 17 = 0) = (n = 16)"
    using assms by presburger
  moreover have "((((of_nat n :: u32) + 1) mod 17) = 0)
      = (unat (((of_nat n :: u32) + 1) mod 17) = unat (0 :: u32))"
    by (rule word_unat_eq_iff)
  ultimately show "(((of_nat n :: u32) + 1) mod 17 = 0) = (n = 16)"
    using m by simp
qed

text \<open>C3. From an empty queue (\<open>tx_head = tx_tail = 0\<close>), sixteen consecutive submissions of
  valid frames are all accepted; the seventeenth returns \<open>NETDEV_TX_BUSY\<close> and leaves
  \<open>tx_head\<close> and \<open>tx_tail\<close> as they were; after a pass of the transmit worker that takes
  one frame (the chip reporting one free slot), \<open>tx_tail\<close> is 1 and one more submission
  is accepted, \<open>tx_head\<close> wrapping to 0. Throughout the filling, after \<open>n\<close> accepted frames
  \<open>tx_head\<close> is \<open>n\<close> and \<open>tx_tail\<close> is 0, so \<open>tx_head = tx_tail\<close> holds exactly when no frame
  is staged and \<open>(tx_head + 1) mod 17 = tx_tail\<close> exactly when sixteen are.\<close>

theorem staging_queue_capacity:
  assumes h0: "tx_head (priv dev) = 0" and t0: "tx_tail (priv dev) = 0"
    and len: "length skbs = 16"
    and valid: "\<forall>s. \<not> dropped_invalid k s"
    and free: "fst (spi_read32 (spi (priv dev)) TXQFS k) AND 0x3F = 1"
    and fill: "xmit_all skbs dev k = (rs, dev16, k16)"
    and full: "tcan_start_xmit s17 dev16 k16 = (r17, dev17, k17)"
    and drain: "tcan4550_tx_work_handler dev17 k17 = (devw, kw)"
    and again: "tcan_start_xmit s18 devw kw = (r18, dev18, k18)"
  shows "rs = replicate 16 NETDEV_TX_OK
       \<and> r17 = NETDEV_TX_BUSY
       \<and> tx_head (priv dev17) = tx_head (priv dev16) \<and> tx_tail (priv dev17) = tx_tail (priv dev16)
       \<and> tx_head (priv devw) = 16 \<and> tx_tail (priv devw) = 1
       \<and> r18 = NETDEV_TX_OK \<and> tx_head (priv dev18) = 0 \<and> tx_tail (priv dev18) = 1
       \<and> (\<forall>n\<le>16.
            fst (xmit_all (take n skbs) dev k) = replicate n NETDEV_TX_OK
          \<and> tx_head (priv (fst (snd (xmit_all (take n skbs) dev k)))) = of_nat n
          \<and> tx_tail (priv (fst (snd (xmit_all (take n skbs) dev k)))) = 0
          \<and> (tx_head (priv (fst (snd (xmit_all (take n skbs) dev k))))
               = tx_tail (priv (fst (snd (xmit_all (take n skbs) dev k))))) = (n = 0)
          \<and> ((tx_head (priv (fst (snd (xmit_all (take n skbs) dev k)))) + 1) mod 17
               = tx_tail (priv (fst (snd (xmit_all (take n skbs) dev k))))) = (n = 16))"
proof -
  have a: "rs = replicate 16 NETDEV_TX_OK \<and> tx_head (priv dev16) = 16 \<and> tx_tail (priv dev16) = 0
       \<and> spi (priv dev16) = spi (priv dev) \<and> k16 = k\<lparr>work_queued := work_queued k + 16\<rparr>"
    using xmit_all_fill [OF valid t0 _ fill] h0 len by simp
  have b: "r17 = NETDEV_TX_BUSY \<and> dev17 = dev16 \<and> k17 = queue_work (netif_stop_queue k16)"
    using full a valid
    by (auto simp: tcan_start_xmit_def Let_def TX_BUFFER_SIZE_def)
  have "fst (spi_read32 (spi (priv dev)) TXQFS k17) = fst (spi_read32 (spi (priv dev)) TXQFS k)"
    by (rule spi_read32_same) (use a b in \<open>simp_all add: queue_work_def netif_stop_queue_def\<close>)
  moreover have "spi (priv dev17) = spi (priv dev)"
    using a b by simp
  ultimately have free17: "fst (spi_read32 (spi (priv dev17)) TXQFS k17) AND 0x3F = 1"
    using free by simp
  have h17: "tx_head (priv dev17) = 16" and t17: "tx_tail (priv dev17) = 0"
    using a b by simp_all
  have c: "tx_head (priv devw) = 16 \<and> tx_tail (priv devw) = 1
       \<and> dropped_invalid kw = dropped_invalid k17"
    by (rule tx_work_handler_one [OF h17 t17 free17 drain])
  have v17: "dropped_invalid k17 = dropped_invalid k"
    using a b by (simp add: queue_work_def netif_stop_queue_def)
  have d: "r18 = NETDEV_TX_OK \<and> tx_head (priv dev18) = 0 \<and> tx_tail (priv dev18) = 1"
    using again c v17 valid
    by (auto simp: tcan_start_xmit_def Let_def TX_BUFFER_SIZE_def)
  have e: "fst (xmit_all (take n skbs) dev k) = replicate n NETDEV_TX_OK
          \<and> tx_head (priv (fst (snd (xmit_all (take n skbs) dev k)))) = of_nat n
          \<and> tx_tail (priv (fst (snd (xmit_all (take n skbs) dev k)))) = 0" if "n \<le> 16" for n
  proof -
    have "unat (tx_head (priv dev)) + length (take n skbs) \<le> 16"
      using h0 len that by simp
    moreover have "length (take n skbs) = n"
      using len that by simp
    ultimately show ?thesis
      using xmit_all_fill [OF valid t0, of "take n skbs" "fst (xmit_all (take n skbs) dev k)"
        "fst (snd (xmit_all (take n skbs) dev k))" "snd (snd (xmit_all (take n skbs) dev k))"] h0
      by simp
  qed
  have f: "(tx_head (priv (fst (snd (xmit_all (take n skbs) dev k))))
               = tx_tail (priv (fst (snd (xmit_all (take n skbs) dev k))))) = (n = 0)
          \<and> ((tx_head (priv (fst (snd (xmit_all (take n skbs) dev k)))) + 1) mod 17
               = tx_tail (priv (fst (snd (xmit_all (take n skbs) dev k))))) = (n = 16)"
    if "n \<le> 16" for n
    using e [OF that] queue_index_tests [OF that] by simp
  from a b c d e f show ?thesis
    by blast
qed

theorem staging_queue_capacity_witness:
  "tx_head (priv dev_open) = 0 \<and> tx_tail (priv dev_open) = 0
   \<and> length (replicate 16 \<lparr>can_id = 0x123, len = 0, data = (\<lambda>i. 0)\<rparr>) = 16
   \<and> (\<forall>s. \<not> dropped_invalid (kernel_answering (\<lambda>n. 1)) s)
   \<and> fst (spi_read32 (spi (priv dev_open)) TXQFS (kernel_answering (\<lambda>n. 1))) AND 0x3F = 1
   \<and> fst (xmit_all (replicate 16 \<lparr>can_id = 0x123, len = 0, data = (\<lambda>i. 0)\<rparr>) dev_open
            (kernel_answering (\<lambda>n. 1)))
       = replicate 16 NETDEV_TX_OK
   \<and> fst (tcan_start_xmit \<lparr>can_id = 0x123, len = 0, data = (\<lambda>i. 0)\<rparr>
            (fst (snd (xmit_all (replicate 16 \<lparr>can_id = 0x123, len = 0, data = (\<lambda>i. 0)\<rparr>)
                         dev_open (kernel_answering (\<lambda>n. 1)))))
            (snd (snd (xmit_all (replicate 16 \<lparr>can_id = 0x123, len = 0, data = (\<lambda>i. 0)\<rparr>)
                         dev_open (kernel_answering (\<lambda>n. 1))))))
       = NETDEV_TX_BUSY"
proof -
  let ?f = "\<lparr>can_id = 0x123, len = 0, data = (\<lambda>i. 0)\<rparr> :: can_frame"
  let ?k = "kernel_answering (\<lambda>n. 1)"
  let ?A = "xmit_all (replicate 16 ?f) dev_open ?k"
  let ?B = "tcan_start_xmit ?f (fst (snd ?A)) (snd (snd ?A))"
  let ?C = "tcan4550_tx_work_handler (fst (snd ?B)) (snd (snd ?B))"
  let ?D = "tcan_start_xmit ?f (fst ?C) (snd ?C)"
  have h0: "tx_head (priv dev_open) = 0" and t0: "tx_tail (priv dev_open) = 0"
    by (simp_all add: dev_open_def priv_open_def)
  have len: "length (replicate 16 ?f) = 16" by simp
  have valid: "\<forall>s. \<not> dropped_invalid ?k s"
    by (simp add: kernel_answering_def)
  have free: "fst (spi_read32 (spi (priv dev_open)) TXQFS ?k) AND 0x3F = 1"
    by (simp add: dev_open_def priv_open_def spi_read32_Some kernel_answering_def answer_byte_def)
  have A: "?A = (fst ?A, fst (snd ?A), snd (snd ?A))" by simp
  have B: "?B = (fst ?B, fst (snd ?B), snd (snd ?B))" by simp
  have C: "?C = (fst ?C, snd ?C)" by simp
  have D: "?D = (fst ?D, fst (snd ?D), snd (snd ?D))" by simp
  show ?thesis
    using h0 t0 len valid free staging_queue_capacity [OF h0 t0 len valid free A B C D]
    by blast
qed

section \<open>Bit timing\<close>

text \<open>C5 (the code departs from it). The driver refuses no prescaler. \<open>tcan4550_set_mode\<close>
  with \<open>CAN_MODE_START\<close>, which packs the register word with the expression \<open>tcan_open\<close>
  uses, answers 0 and not \<open>-EINVAL\<close> for the prescalers 0 and 513, in any environment. The
  word it packs for the prescaler 0 has all of the bits 16 to 31 set, and the word for 513
  carries into the jump-width field at bit 25; the word for 512 holds 511 in the nine
  bits 16 to 24 and leaves the jump-width field alone. The only limits on the prescaler
  in the source are those declared to the CAN framework, 1 and 511: the declared maximum
  is the largest value of the field, one less than the largest prescaler it can hold.\<close>

theorem prescaler_not_validated:
  "fst (tcan4550_set_mode
          (dev_open\<lparr>priv := priv_open\<lparr>bittiming :=
             \<lparr>prop_seg = 34, phase_seg1 = 35, phase_seg2 = 10, sjw = 1, brp = 0\<rparr>\<rparr>\<rparr>)
          CAN_MODE_START k) = 0
   \<and> fst (tcan4550_set_mode
          (dev_open\<lparr>priv := priv_open\<lparr>bittiming :=
             \<lparr>prop_seg = 34, phase_seg1 = 35, phase_seg2 = 10, sjw = 1, brp = 513\<rparr>\<rparr>\<rparr>)
          CAN_MODE_START k) = 0
   \<and> - EINVAL \<noteq> (0 :: int)
   \<and> bitRateReg \<lparr>prop_seg = 34, phase_seg1 = 35, phase_seg2 = 10, sjw = 1, brp = 0\<rparr>
       = 0xFFFF4409
   \<and> bitRateReg \<lparr>prop_seg = 34, phase_seg1 = 35, phase_seg2 = 10, sjw = 1, brp = 513\<rparr>
       = 0x02004409
   \<and> bitRateReg \<lparr>prop_seg = 34, phase_seg1 = 35, phase_seg2 = 10, sjw = 1, brp = 512\<rparr>
       = 0x01FF4409
   \<and> brp_min tcan4550_bittiming_const = 1
   \<and> brp_max tcan4550_bittiming_const = 511"
proof -
  have r: "fst (tcan4550_set_mode dev CAN_MODE_START k) = 0" for dev
    using restart_reopens_queue [of dev k "fst (tcan4550_set_mode dev CAN_MODE_START k)"
        "fst (snd (tcan4550_set_mode dev CAN_MODE_START k))"
        "snd (snd (tcan4550_set_mode dev CAN_MODE_START k))"]
    by simp
  show ?thesis
    by (simp add: r EINVAL_def bitRateReg_def tcan4550_bittiming_const_def push_bit_eq_mult)
qed

end
